theory Spec2Isabelle
  imports Complex_Main "HOL-Library.AList"
begin

section \<open>Python values shared by both job masters\<close>

text \<open>
  Every exception the modelled code can raise is a value of \<open>error\<close>; a
  function that can raise returns \<open>error + 'a\<close> with \<open>Inl\<close> for the exception.
\<close>

datatype error =
    IndexError
  | KeyError string
  | TypeError
  | IOError
  | ValueError
  | OSError
  | LearningError string

text \<open>\<open>range(n)\<close> for a Python int: empty when \<open>n \<le> 0\<close>.\<close>

definition py_range :: "int \<Rightarrow> int list" where
  "py_range n = [0..n - 1]"

text \<open>\<open>str\<close> on Python ints (decimal digits, a leading minus sign).\<close>

definition digit_char :: "nat \<Rightarrow> char" where
  "digit_char d = ''0123456789'' ! d"

fun str_nat :: "nat \<Rightarrow> string" where
  "str_nat n = (if n < 10 then [digit_char n] else str_nat (n div 10) @ [digit_char (n mod 10)])"

declare str_nat.simps [simp del]

definition str_int :: "int \<Rightarrow> string" where
  "str_int i = (if i < 0 then CHR ''-'' # str_nat (nat (- i)) else str_nat (nat i))"

section \<open>Configuration\<close>

text \<open>
  The YAML configuration is read once in \<open>_setup\<close>. Its top level holds
  \<open>PathInfo\<close>, \<open>TrialProperties\<close> and one entry per other key; \<open>entries\<close> keeps
  those other keys in the dictionary's iteration order.
\<close>

record nn_cfg =
  numberOfStates :: int
  numberOfInstances :: int
  numberOfOutputs :: int
  numberOfHidden :: int

record component_cfg =
  PopulationSize :: int
  NeuralNetwork :: "nn_cfg option"

record path_info =
  trialPath :: string
  fileName :: string
  executable :: string
  seedDirectory :: string

text \<open>
  The configured \<open>terrains\<close> value is whatever YAML produced: a string (iterated
  character by character), a list, or a scalar that cannot be iterated.
\<close>

datatype 't terrains_cfg =
    TerrainString string
  | TerrainList "'t list"
  | TerrainScalar int

record 't trial_properties =
  generationCount :: int
  generationSize :: int
  trialLength :: int
  terrains :: "'t terrains_cfg"

record 't config =
  PathInfo :: path_info
  TrialProperties :: "'t trial_properties"
  entries :: "(string \<times> component_cfg) list"

section \<open>Candidates, members, generations\<close>

text \<open>
  The value stored under \<open>'params'\<close>: for a component without states a list of
  lists, otherwise the dictionary built by \<open>getNNParams\<close> (to which
  \<open>neuralFilename\<close> is added later). \<open>None\<close> is Python's \<open>None\<close>.
\<close>

datatype 'v params =
    PlainParams "'v option list list"
  | NeuralNet (neuralParams: "'v option list") (numActions: int) (numStates: int)
      (numHidden: int) (neuralFilename: "string option")

text \<open>The template dictionary: keys \<open>'params'\<close> and \<open>'generationID'\<close>.\<close>

record 'v emptyComponent =
  params :: "'v params"
  generationID :: int

text \<open>
  A candidate as the learning algorithm returns it and as the post-processing
  loop completes it (\<open>paramID\<close> and \<open>scores\<close> are overwritten there).
\<close>

record 'v component = "'v emptyComponent" +
  populationID :: int
  paramID :: int
  scores :: "'v list"

section \<open>ControllerJobMaster: the template component\<close>

definition getNonNNParams :: "nn_cfg \<Rightarrow> 'v params" where
  "getNonNNParams neuralNet =
     (let numInstances = numberOfInstances neuralNet;
          numOutputs = numberOfOutputs neuralNet
      in PlainParams (map (\<lambda>i. map (\<lambda>j. None) (py_range numOutputs)) (py_range numInstances)))"

definition getNNParams :: "nn_cfg \<Rightarrow> 'v params" where
  "getNNParams neuralNet =
     (let numOutputs = numberOfOutputs neuralNet;
          numStates = numberOfStates neuralNet;
          numHidden = numberOfHidden neuralNet;
          totalParams = (numStates + 1) * numHidden + (numHidden + 1) * numOutputs
      in NeuralNet (replicate (nat totalParams) None) numOutputs numStates numHidden None)"

definition createEmptyComponent :: "string \<Rightarrow> nn_cfg \<Rightarrow> int \<Rightarrow> 'v emptyComponent" where
  "createEmptyComponent component neuralNet generationID' =
     \<lparr>params = (if numberOfStates neuralNet = 0 then getNonNNParams neuralNet
                else getNNParams neuralNet),
      generationID = generationID'\<rparr>"

section \<open>ControllerJobMaster: neural weight files\<close>

text \<open>
  \<open>writeToNNW\<close>: the loop carries the text written so far and the flag
  \<open>first\<close>; \<open>str\<close> is Python's \<open>str\<close> on the elements.
\<close>

fun writeToNNW_loop :: "('a \<Rightarrow> string) \<Rightarrow> 'a list \<Rightarrow> string \<times> bool \<Rightarrow> string \<times> bool" where
  "writeToNNW_loop str [] (fout, first) = (fout, first)"
| "writeToNNW_loop str (x # xs) (fout, first) =
     (if first then writeToNNW_loop str xs (fout @ str x, False)
      else writeToNNW_loop str xs (fout @ '','' @ str x, first))"

definition writeToNNW :: "('a \<Rightarrow> string) \<Rightarrow> 'a list \<Rightarrow> string" where
  "writeToNNW str neuralParams' = fst (writeToNNW_loop str neuralParams' ([], True))"


section \<open>Members and generations\<close>

text \<open>
  Modelled from the spec: the classes \<open>Member\<close> and \<open>Generation\<close> of
  \<open>helpersNew\<close> are not among the sources. A member wraps one dictionary,
  \<open>member.components\<close>. \<open>Member(memberID=\<dots>, generationID=\<dots>)\<close> puts the two IDs
  into it under the keys \<open>memberID\<close> and \<open>generationID\<close>, and
  \<open>createNewGeneration\<close> stores each component's candidate in the same dictionary
  under the component's name, so a component named \<open>memberID\<close> or
  \<open>generationID\<close> replaces that ID by a candidate. The two keys that are always
  present are fields holding an int or a candidate; the other keys are an
  association list updated as a Python dictionary is. A generation is its ID and
  its members in creation order; \<open>addMember\<close> appends.
\<close>

datatype 'v entry = IntEntry int | ComponentEntry "'v component"

record 'v member_dict =
  memberID :: "'v entry"
  member_generationID :: "'v entry"
  candidates :: "(string \<times> 'v component) list"

datatype 'v member = Member (components: "'v member_dict")

definition new_Member :: "int \<Rightarrow> int \<Rightarrow> 'v member" where
  "new_Member memberID' generationID' =
     Member \<lparr>memberID = IntEntry memberID', member_generationID = IntEntry generationID',
             candidates = []\<rparr>"

text \<open>\<open>member.components[key]\<close> and \<open>member.components[name] = c\<close>.\<close>

definition get_entry :: "'v member \<Rightarrow> string \<Rightarrow> 'v entry option" where
  "get_entry m key =
     (if key = ''memberID'' then Some (memberID (components m))
      else if key = ''generationID'' then Some (member_generationID (components m))
      else map_option ComponentEntry (map_of (candidates (components m)) key))"

definition set_component :: "string \<Rightarrow> 'v component \<Rightarrow> 'v member \<Rightarrow> 'v member" where
  "set_component name c m =
     (if name = ''memberID'' then Member ((components m)\<lparr>memberID := ComponentEntry c\<rparr>)
      else if name = ''generationID''
      then Member ((components m)\<lparr>member_generationID := ComponentEntry c\<rparr>)
      else Member ((components m)\<lparr>candidates := AList.update name c (candidates (components m))\<rparr>))"

record 'v generation =
  ID :: int
  members :: "'v member list"

definition Generation :: "int \<Rightarrow> 'v generation" where
  "Generation generationID' = \<lparr>ID = generationID', members = []\<rparr>"

definition addMember :: "'v generation \<Rightarrow> 'v member \<Rightarrow> 'v generation" where
  "addMember g m = g\<lparr>members := members g @ [m]\<rparr>"

definition getMembers :: "'v generation \<Rightarrow> 'v member list" where
  "getMembers g = members g"

section \<open>The job master object and its environment\<close>

text \<open>
  \<open>self\<close> after \<open>_setup\<close>. \<open>self_terrains\<close> is the attribute \<open>self.terrains\<close>,
  which exists only when the configured value is the string \<open>flat\<close>.
\<close>

record 't self =
  config :: "'t config"
  trialDirectory :: string
  self_terrains :: "int list list list option"
  numProcesses :: int

definition RESOURCE_DIRECTORY_NAME :: string where
  "RESOURCE_DIRECTORY_NAME = ''../../../resources/src/''"

definition NEURAL_NET_DIRECTORY_NAME :: string where
  "NEURAL_NET_DIRECTORY_NAME = ''NeuralNet/''"

definition PROTECTED_TERMS :: "string list" where
  "PROTECTED_TERMS =
     [''PathInfo'', ''TrialProperties'', ''trialPath'', ''fileName'', ''executable'',
      ''seedDirectory'', ''learningType'', ''triallength'', ''generationCount'',
      ''generationSize'', ''scoreMethod'', ''fitnessFunction'', ''terrains'',
      ''Algorithms'', ''PopulationSize'', ''Ranges'']"

text \<open>
  \<open>_setup\<close> once the configuration file has been parsed; \<open>abspath\<close> is
  \<open>os.path.abspath\<close>.
\<close>

definition LearningJobMaster_setup :: "(string \<Rightarrow> string) \<Rightarrow> 't config \<Rightarrow> int \<Rightarrow> 't self" where
  "LearningJobMaster_setup abspath cfg nproc =
     \<lparr>config = cfg,
      trialDirectory = abspath (RESOURCE_DIRECTORY_NAME @ trialPath (PathInfo cfg)),
      self_terrains =
        (if terrains (TrialProperties cfg) = TerrainString ''flat''
         then Some [[[0, 0, 0, 0]]] else None),
      numProcesses = nproc\<rparr>"

definition getComponents :: "'t self \<Rightarrow> (string \<times> component_cfg) list" where
  "getComponents self = filter (\<lambda>(key, v). key \<notin> set PROTECTED_TERMS) (entries (config self))"

text \<open>
  The mutable world of a run: the files written so far (path and content, in
  order), the stream of draws behind \<open>random\<close>, and what was printed.
\<close>

type_synonym files = "(string \<times> string) list"
type_synonym rng = "nat \<Rightarrow> nat"

text \<open>
  \<open>random.choice(seq)\<close> is \<open>seq[int(random() * len(seq))]\<close>: one draw is used
  and scaled into the index range; on an empty sequence the index 0 is out of
  range.
\<close>

definition random_choice :: "'a list \<Rightarrow> rng \<Rightarrow> error + ('a \<times> rng)" where
  "random_choice seq r =
     (if seq = [] then Inl IndexError
      else Inr (seq ! (r 0 mod length seq), \<lambda>k. r (Suc k)))"

section \<open>ControllerJobMaster: component populations\<close>

definition str_param :: "('v \<Rightarrow> string) \<Rightarrow> 'v option \<Rightarrow> string" where
  "str_param str x = (case x of None \<Rightarrow> ''None'' | Some v \<Rightarrow> str v)"

text \<open>
  The body of the post-processing loop of \<open>generateComponentPopulation\<close>. The
  candidates are values here: each has its own \<open>params\<close>. In Python
  \<open>neuralFilename\<close> is written into the \<open>params\<close> dictionary in place, so where the
  learner returns candidates that share one \<open>params\<close> dictionary, all of them end
  with the file name written last; \<open>paramID\<close>, \<open>scores\<close> and the files written are
  the same either way.
\<close>

definition postProcessComponent ::
  "'t self \<Rightarrow> ('v \<Rightarrow> string) \<Rightarrow> string \<Rightarrow> int \<Rightarrow> 'v component \<Rightarrow> files
     \<Rightarrow> error + ('v component \<times> files)" where
  "postProcessComponent self str componentName generationID' component fs =
     (case map_of (entries (config self)) componentName of
        None \<Rightarrow> Inl (KeyError componentName)
      | Some cfg \<Rightarrow>
          (let populationSize = PopulationSize cfg;
               component1 = component\<lparr>paramID := populationSize * generationID' + populationID component,
                                       scores := []\<rparr>
           in case params component1 of
                PlainParams rows \<Rightarrow> Inr (component1, fs)
              | NeuralNet neuralParams' nA nS nH nF \<Rightarrow>
                  (let baseFileName = fileName (PathInfo (config self)) @ ''_'' @ componentName @ ''_''
                         @ str_int (generationID component1) @ ''_''
                         @ str_int (populationID component1) @ ''.nnw'';
                       fileName' = trialDirectory self @ ''/'' @ NEURAL_NET_DIRECTORY_NAME @ baseFileName
                   in Inr (component1\<lparr>params :=
                              NeuralNet neuralParams' nA nS nH (Some (NEURAL_NET_DIRECTORY_NAME @ baseFileName))\<rparr>,
                           fs @ [(fileName', writeToNNW (str_param str) neuralParams')]))))"

fun postProcess_loop ::
  "'t self \<Rightarrow> ('v \<Rightarrow> string) \<Rightarrow> string \<Rightarrow> int \<Rightarrow> 'v component list \<Rightarrow> files
     \<Rightarrow> error + ('v component list \<times> files)" where
  "postProcess_loop self str componentName generationID' [] fs = Inr ([], fs)"
| "postProcess_loop self str componentName generationID' (component # rest) fs =
     (case postProcessComponent self str componentName generationID' component fs of
        Inl e \<Rightarrow> Inl e
      | Inr (component', fs') \<Rightarrow>
          (case postProcess_loop self str componentName generationID' rest fs' of
             Inl e \<Rightarrow> Inl e
           | Inr (rest', fs'') \<Rightarrow> Inr (component' # rest', fs'')))"

text \<open>
  \<open>dispatchLearning\<close> is the pluggable learning algorithm (module
  \<open>algorithms\<close>): a parameter of the model, free to raise.
\<close>

type_synonym 'v learner =
  "string \<Rightarrow> component_cfg \<Rightarrow> 'v emptyComponent \<Rightarrow> 'v generation \<Rightarrow> error + 'v component list"

definition generateComponentPopulation ::
  "'t self \<Rightarrow> 'v learner \<Rightarrow> ('v \<Rightarrow> string) \<Rightarrow> string \<Rightarrow> (string \<times> component_cfg) list
     \<Rightarrow> 'v generation \<Rightarrow> int \<Rightarrow> files \<Rightarrow> error + ('v component list \<times> files)" where
  "generateComponentPopulation self dispatchLearning str componentName components' previousGeneration
       generationID' fs =
     (case map_of components' componentName of
        None \<Rightarrow> Inl (KeyError componentName)
      | Some componentDictionary \<Rightarrow>
          (case NeuralNetwork componentDictionary of
             None \<Rightarrow> Inl (KeyError ''NeuralNetwork'')
           | Some neuralNet \<Rightarrow>
               (let emptyComponent = createEmptyComponent componentName neuralNet generationID'
                in case dispatchLearning componentName componentDictionary emptyComponent
                          previousGeneration of
                     Inl e \<Rightarrow> Inl e
                   | Inr componentPopulation \<Rightarrow>
                       postProcess_loop self str componentName generationID' componentPopulation fs)))"

fun generateComponentPopulations_loop ::
  "'t self \<Rightarrow> 'v learner \<Rightarrow> ('v \<Rightarrow> string) \<Rightarrow> (string \<times> component_cfg) list \<Rightarrow> 'v generation
     \<Rightarrow> int \<Rightarrow> string list \<Rightarrow> (string \<times> 'v component list) list \<Rightarrow> files
     \<Rightarrow> error + ((string \<times> 'v component list) list \<times> files)" where
  "generateComponentPopulations_loop self dispatchLearning str componentDictionary previousGeneration
       generationID' [] componentPopulations fs = Inr (componentPopulations, fs)"
| "generateComponentPopulations_loop self dispatchLearning str componentDictionary previousGeneration
       generationID' (componentName # rest) componentPopulations fs =
     (case generateComponentPopulation self dispatchLearning str componentName componentDictionary
             previousGeneration generationID' fs of
        Inl e \<Rightarrow> Inl e
      | Inr (population, fs') \<Rightarrow>
          generateComponentPopulations_loop self dispatchLearning str componentDictionary
            previousGeneration generationID' rest
            (AList.update componentName population componentPopulations) fs')"

definition generateComponentPopulations ::
  "'t self \<Rightarrow> 'v learner \<Rightarrow> ('v \<Rightarrow> string) \<Rightarrow> (string \<times> component_cfg) list \<Rightarrow> 'v generation
     \<Rightarrow> int \<Rightarrow> files \<Rightarrow> error + ((string \<times> 'v component list) list \<times> files)" where
  "generateComponentPopulations self dispatchLearning str componentDictionary previousGeneration
       generationID' fs =
     generateComponentPopulations_loop self dispatchLearning str componentDictionary previousGeneration
       generationID' (map fst componentDictionary) [] fs"


section \<open>LearningJobMaster: assembling a generation\<close>

text \<open>The inner loop of \<open>createNewGeneration\<close>: one random candidate per component.\<close>

fun chooseComponents ::
  "(string \<times> 'v component list) list \<Rightarrow> 'v member \<Rightarrow> rng \<Rightarrow> error + ('v member \<times> rng)" where
  "chooseComponents [] newMember r = Inr (newMember, r)"
| "chooseComponents ((component, population) # rest) newMember r =
     (case random_choice population r of
        Inl e \<Rightarrow> Inl e
      | Inr (randomPopulation, r') \<Rightarrow>
          chooseComponents rest (set_component component randomPopulation newMember) r')"

text \<open>The outer loop, over \<open>range(generationSize)\<close>.\<close>

fun createMembers ::
  "(string \<times> 'v component list) list \<Rightarrow> int \<Rightarrow> int list \<Rightarrow> 'v generation \<Rightarrow> rng
     \<Rightarrow> error + ('v generation \<times> rng)" where
  "createMembers componentPopulations generationID' [] newGeneration r = Inr (newGeneration, r)"
| "createMembers componentPopulations generationID' (id' # ids) newGeneration r =
     (case chooseComponents componentPopulations (new_Member id' generationID') r of
        Inl e \<Rightarrow> Inl e
      | Inr (newMember, r') \<Rightarrow>
          createMembers componentPopulations generationID' ids (addMember newGeneration newMember) r')"

definition createNewGeneration ::
  "'t self \<Rightarrow> (string \<times> 'v component list) list \<Rightarrow> int \<Rightarrow> rng \<Rightarrow> error + ('v generation \<times> rng)" where
  "createNewGeneration self componentPopulations generationID' r =
     createMembers componentPopulations generationID'
       (py_range (generationSize (TrialProperties (config self)))) (Generation generationID') r"

section \<open>LearningJobMaster: the seed generation\<close>

text \<open>
  The directory tree the seed is read from: a path is absent, a file with its
  text, or a directory with its listing. \<open>json_load\<close> is \<open>json.load\<close> on the
  text of a file, free to raise.
\<close>

datatype fsnode = File string | Directory "string list"

type_synonym filesystem = "string \<Rightarrow> fsnode option"

definition isdir :: "filesystem \<Rightarrow> string \<Rightarrow> bool" where
  "isdir fs p = (case fs p of Some (Directory names) \<Rightarrow> True | _ \<Rightarrow> False)"

definition listdir :: "filesystem \<Rightarrow> string \<Rightarrow> error + string list" where
  "listdir fs p = (case fs p of Some (Directory names) \<Rightarrow> Inr names | _ \<Rightarrow> Inl OSError)"

definition seed_warning :: string where
  "seed_warning = ''Trying to import from a seed directory that is not a seed directory. Check the seedDirectory element in PathInfo.''"

fun importSeed_loop ::
  "filesystem \<Rightarrow> (string \<Rightarrow> error + 'v member_dict) \<Rightarrow> (string \<Rightarrow> string) \<Rightarrow> string
     \<Rightarrow> string list \<Rightarrow> 'v generation \<Rightarrow> error + 'v generation" where
  "importSeed_loop fs json_load abspath seedDirectory' [] previousGeneration = Inr previousGeneration"
| "importSeed_loop fs json_load abspath seedDirectory' (file # rest) previousGeneration =
     (let absFilePath = abspath seedDirectory' @ ''/'' @ file
      in case fs absFilePath of
           Some (File seedFile) \<Rightarrow>
             (case json_load seedFile of
                Inl e \<Rightarrow> Inl e
              | Inr seedInput \<Rightarrow>
                  importSeed_loop fs json_load abspath seedDirectory' rest
                    (addMember previousGeneration (Member seedInput)))
         | _ \<Rightarrow> Inl IOError)"

text \<open>The result is the generation and the lines printed.\<close>

definition importSeedGeneration ::
  "'t self \<Rightarrow> filesystem \<Rightarrow> (string \<Rightarrow> error + 'v member_dict) \<Rightarrow> (string \<Rightarrow> string)
     \<Rightarrow> error + ('v generation \<times> string list)" where
  "importSeedGeneration self fs json_load abspath =
     (let seedDirectory' = seedDirectory (PathInfo (config self));
          previousGeneration = Generation (- 1)
      in if isdir fs seedDirectory'
         then (case listdir fs seedDirectory' of
                 Inl e \<Rightarrow> Inl e
               | Inr names \<Rightarrow>
                   (case importSeed_loop fs json_load abspath seedDirectory' names
                           previousGeneration of
                      Inl e \<Rightarrow> Inl e
                    | Inr g \<Rightarrow> Inr (g, [])))
         else Inr (previousGeneration, [seed_warning]))"

section \<open>LearningJobMaster: generation IDs\<close>

text \<open>
  \<open>if previousGeneration:\<close> asks for the truth value of the argument. \<open>None\<close>
  is false; the truth value of a \<open>Generation\<close> object is decided by the class
  \<open>Generation\<close> of \<open>helpersNew\<close>, which is not among the sources, so it is the
  parameter \<open>truthy\<close>.
\<close>

definition getNewGenerationID :: "('v generation \<Rightarrow> bool) \<Rightarrow> 'v generation option \<Rightarrow> int" where
  "getNewGenerationID truthy previousGeneration =
     (case previousGeneration of
        None \<Rightarrow> - 1
      | Some g \<Rightarrow> if truthy g then ID g + 1 else - 1)"

section \<open>ControllerJobMaster: one new generation\<close>

definition generationGenerator ::
  "'t self \<Rightarrow> ('v generation \<Rightarrow> bool) \<Rightarrow> 'v learner \<Rightarrow> ('v \<Rightarrow> string) \<Rightarrow> 'v generation
     \<Rightarrow> files \<times> rng \<Rightarrow> error + ('v generation \<times> files \<times> rng)" where
  "generationGenerator self truthy dispatchLearning str previousGeneration w =
     (let components' = getComponents self;
          generationID' = getNewGenerationID truthy (Some previousGeneration)
      in case generateComponentPopulations self dispatchLearning str components' previousGeneration
                generationID' (fst w) of
           Inl e \<Rightarrow> Inl e
         | Inr (componentPopulations, fs') \<Rightarrow>
             (case createNewGeneration self componentPopulations generationID' (snd w) of
                Inl e \<Rightarrow> Inl e
              | Inr (newGeneration, r') \<Rightarrow> Inr (newGeneration, fs', r')))"

section \<open>LearningJobMaster: persisting members and dispatching trials\<close>

text \<open>
  \<open>json_dump\<close> is the text \<open>json.dump\<close> writes for a member's dictionary, and
  \<open>str_dict\<close> is Python's \<open>str\<close> on a candidate's dictionary (what the file name
  holds when a candidate has replaced an ID).
\<close>

definition str_entry :: "('v component \<Rightarrow> string) \<Rightarrow> 'v entry \<Rightarrow> string" where
  "str_entry str_dict e = (case e of IntEntry i \<Rightarrow> str_int i | ComponentEntry c \<Rightarrow> str_dict c)"

definition writeMemberToFile ::
  "'t self \<Rightarrow> ('v member_dict \<Rightarrow> string) \<Rightarrow> ('v component \<Rightarrow> string) \<Rightarrow> 'v member \<Rightarrow> files
     \<Rightarrow> string \<times> files" where
  "writeMemberToFile self json_dump str_dict member fs =
     (let components' = components member;
          basename = fileName (PathInfo (config self)) @ ''_''
            @ str_entry str_dict (member_generationID components') @ ''_''
            @ str_entry str_dict (memberID components') @ ''.json'';
          filePath = trialDirectory self @ ''/'' @ basename
      in (basename, fs @ [(filePath, json_dump components')]))"

text \<open>The argument dictionary of an \<open>EvolutionJob\<close>.\<close>

record job_args =
  job_filename :: string
  job_resourcePrefix :: string
  job_path :: string
  job_executable :: string
  job_length :: int
  job_terrain :: "int list list"

datatype job = EvolutionJob (args_of: job_args)

text \<open>
  What \<open>for terrain in self.trialProperties['terrains']\<close> iterates: the
  characters of a string, the elements of a list; a scalar raises.
\<close>

datatype 't terrain_item = CharItem char | ListItem 't

definition iter_terrains :: "'t terrains_cfg \<Rightarrow> error + 't terrain_item list" where
  "iter_terrains tc =
     (case tc of
        TerrainString s \<Rightarrow> Inr (map CharItem s)
      | TerrainList ts \<Rightarrow> Inr (map ListItem ts)
      | TerrainScalar n \<Rightarrow> Inl TypeError)"

text \<open>\<open>len\<close> of the configured value.\<close>

definition len_terrains :: "'t terrains_cfg \<Rightarrow> error + nat" where
  "len_terrains tc =
     (case tc of
        TerrainString s \<Rightarrow> Inr (length s)
      | TerrainList ts \<Rightarrow> Inr (length ts)
      | TerrainScalar n \<Rightarrow> Inl TypeError)"

text \<open>The loop over the terrains for one member; the loop variable is overwritten.\<close>

fun terrain_loop :: "'t self \<Rightarrow> string \<Rightarrow> 't terrain_item list \<Rightarrow> job list \<Rightarrow> job list" where
  "terrain_loop self fileName' [] jobList = jobList"
| "terrain_loop self fileName' (terrain # rest) jobList =
     (let terrain' = [[0, 0, 0, 0]];
          args = \<lparr>job_filename = fileName',
                  job_resourcePrefix = RESOURCE_DIRECTORY_NAME,
                  job_path = trialPath (PathInfo (config self)),
                  job_executable = executable (PathInfo (config self)),
                  job_length = trialLength (TrialProperties (config self)),
                  job_terrain = terrain'\<rparr>
      in terrain_loop self fileName' rest (jobList @ [EvolutionJob args]))"

text \<open>The body of the loop over the members of the active generation.\<close>

definition member_body ::
  "'t self \<Rightarrow> ('v member_dict \<Rightarrow> string) \<Rightarrow> ('v component \<Rightarrow> string) \<Rightarrow> 'v member
     \<Rightarrow> files \<times> job list \<Rightarrow> error + (files \<times> job list)" where
  "member_body self json_dump str_dict member w =
     (case writeMemberToFile self json_dump str_dict member (fst w) of
        (fileName', fs') \<Rightarrow>
          (case iter_terrains (terrains (TrialProperties (config self))) of
             Inl e \<Rightarrow> Inl e
           | Inr items \<Rightarrow> Inr (fs', terrain_loop self fileName' items (snd w))))"

fun member_loop ::
  "'t self \<Rightarrow> ('v member_dict \<Rightarrow> string) \<Rightarrow> ('v component \<Rightarrow> string) \<Rightarrow> 'v member list
     \<Rightarrow> files \<times> job list \<Rightarrow> error + (files \<times> job list)" where
  "member_loop self json_dump str_dict [] w = Inr w"
| "member_loop self json_dump str_dict (member # rest) w =
     (case member_body self json_dump str_dict member w of
        Inl e \<Rightarrow> Inl e
      | Inr w' \<Rightarrow> member_loop self json_dump str_dict rest w')"

section \<open>LearningJobMaster: the run\<close>

text \<open>
  \<open>ConcurrentScheduler(jobList, numProcesses).processJobs()\<close>: the class is not
  among the sources. It is handed the list object \<open>jobList\<close> itself, so whatever it
  takes out of the list is gone from \<open>jobList\<close> when the next generation appends
  to it. The scheduler is therefore a parameter: from the list and the process
  limit it gives the completed jobs and the positions of the jobs it leaves in
  the list (none when it consumes the list, all when it only reads it), or it
  raises. \<open>processJobOutput\<close>, called on every completed job, is outside the
  sources too and changes nothing the loop reads.
\<close>

type_synonym scheduler = "job list \<Rightarrow> int \<Rightarrow> error + (job list \<times> nat set)"

text \<open>
  The state of the loop of \<open>beginTrialMaster\<close>: the files written, the random
  stream, \<open>jobList\<close> and \<open>previousGeneration\<close>. Two further fields record what
  leaves the program: \<open>generations\<close> lists every generation the generator
  returned, \<open>submitted\<close> every job list handed to \<open>ConcurrentScheduler\<close>, as it
  was when handed over, both in order.
\<close>

record 'v run_state =
  run_files :: files
  run_rng :: rng
  jobList :: "job list"
  previousGeneration :: "'v generation"
  generations :: "'v generation list"
  submitted :: "job list list"

definition generation_body ::
  "'t self \<Rightarrow> ('v generation \<Rightarrow> bool) \<Rightarrow> 'v learner \<Rightarrow> ('v \<Rightarrow> string)
     \<Rightarrow> ('v member_dict \<Rightarrow> string) \<Rightarrow> ('v component \<Rightarrow> string) \<Rightarrow> scheduler
     \<Rightarrow> 'v run_state \<Rightarrow> error + 'v run_state" where
  "generation_body self truthy dispatchLearning str json_dump str_dict processJobs st =
     (case generationGenerator self truthy dispatchLearning str (previousGeneration st)
             (run_files st, run_rng st) of
        Inl e \<Rightarrow> Inl e
      | Inr (activeGeneration, fs', r') \<Rightarrow>
          (case member_loop self json_dump str_dict (getMembers activeGeneration)
                  (fs', jobList st) of
             Inl e \<Rightarrow> Inl e
           | Inr (fs'', jobList') \<Rightarrow>
               (case processJobs jobList' (numProcesses self) of
                  Inl e \<Rightarrow> Inl e
                | Inr (completedJobs, left) \<Rightarrow>
                    Inr \<lparr>run_files = fs'', run_rng = r', jobList = nths jobList' left,
                         previousGeneration = activeGeneration,
                         generations = generations st @ [activeGeneration],
                         submitted = submitted st @ [jobList']\<rparr>)))"

fun generation_loop ::
  "'t self \<Rightarrow> ('v generation \<Rightarrow> bool) \<Rightarrow> 'v learner \<Rightarrow> ('v \<Rightarrow> string)
     \<Rightarrow> ('v member_dict \<Rightarrow> string) \<Rightarrow> ('v component \<Rightarrow> string) \<Rightarrow> scheduler
     \<Rightarrow> int list \<Rightarrow> 'v run_state \<Rightarrow> error + 'v run_state" where
  "generation_loop self truthy dispatchLearning str json_dump str_dict processJobs [] st = Inr st"
| "generation_loop self truthy dispatchLearning str json_dump str_dict processJobs (genNum # rest) st =
     (case generation_body self truthy dispatchLearning str json_dump str_dict processJobs st of
        Inl e \<Rightarrow> Inl e
      | Inr st' \<Rightarrow>
          generation_loop self truthy dispatchLearning str json_dump str_dict processJobs rest st')"

definition beginTrialMaster ::
  "'t self \<Rightarrow> ('v generation \<Rightarrow> bool) \<Rightarrow> 'v learner \<Rightarrow> ('v \<Rightarrow> string)
     \<Rightarrow> ('v member_dict \<Rightarrow> string) \<Rightarrow> ('v component \<Rightarrow> string) \<Rightarrow> scheduler
     \<Rightarrow> filesystem \<Rightarrow> (string \<Rightarrow> error + 'v member_dict)
     \<Rightarrow> (string \<Rightarrow> string) \<Rightarrow> rng \<Rightarrow> error + ('v run_state \<times> string list)" where
  "beginTrialMaster self truthy dispatchLearning str json_dump str_dict processJobs fs json_load
       abspath r =
     (let generationCount' = generationCount (TrialProperties (config self));
          jobList0 = []
      in case importSeedGeneration self fs json_load abspath of
           Inl e \<Rightarrow> Inl e
         | Inr (seed, printed) \<Rightarrow>
             (case generation_loop self truthy dispatchLearning str json_dump str_dict processJobs
                     (py_range generationCount')
                     \<lparr>run_files = [], run_rng = r, jobList = jobList0,
                      previousGeneration = seed, generations = [], submitted = []\<rparr> of
                Inl e \<Rightarrow> Inl e
              | Inr st \<Rightarrow> Inr (st, printed)))"

section \<open>Reading a weight file back\<close>

text \<open>
  Modelled from the spec: no reader of weight files is among the sources. The
  spec describes the written text as the elements' textual forms joined by
  commas (\<open>comma_join\<close>), and the reader as splitting the text on commas
  (\<open>split_commas\<close>, Python's \<open>text.split(',')\<close>) and casting every piece.
\<close>

fun comma_join :: "string list \<Rightarrow> string" where
  "comma_join [] = []"
| "comma_join [s] = s"
| "comma_join (s # t # ts) = s @ '','' @ comma_join (t # ts)"

fun split_commas :: "string \<Rightarrow> string list" where
  "split_commas [] = [[]]"
| "split_commas (c # cs) =
     (if c = CHR '','' then [] # split_commas cs
      else (case split_commas cs of
              [] \<Rightarrow> [[c]]
            | piece # pieces \<Rightarrow> (c # piece) # pieces))"

text \<open>
  The numbers of a parameter vector: Python ints, and floats of a type \<open>'f\<close>
  whose textual form \<open>float_str\<close> is a parameter (floating-point formatting is
  outside the model).
\<close>

datatype 'f pynum = PyInt int | PyFloat 'f

definition str_pynum :: "('f \<Rightarrow> string) \<Rightarrow> 'f pynum \<Rightarrow> string" where
  "str_pynum float_str x = (case x of PyInt i \<Rightarrow> str_int i | PyFloat f \<Rightarrow> float_str f)"


text \<open>
  Modelled from the spec: the cast of one piece back to a number, for the
  integer elements: Python's \<open>int(piece)\<close> on an optional minus sign followed by
  decimal digits, \<open>ValueError\<close> otherwise.
\<close>

fun digit_index :: "char \<Rightarrow> string \<Rightarrow> nat \<Rightarrow> nat option" where
  "digit_index c [] i = None"
| "digit_index c (d # ds) i = (if c = d then Some i else digit_index c ds (Suc i))"

definition digit_val :: "char \<Rightarrow> nat option" where
  "digit_val c = digit_index c ''0123456789'' 0"

fun cast_digits :: "nat \<Rightarrow> string \<Rightarrow> nat option" where
  "cast_digits acc [] = Some acc"
| "cast_digits acc (c # cs) =
     (case digit_val c of None \<Rightarrow> None | Some d \<Rightarrow> cast_digits (10 * acc + d) cs)"

definition cast_nat :: "string \<Rightarrow> error + nat" where
  "cast_nat s =
     (if s = [] then Inl ValueError
      else case cast_digits 0 s of None \<Rightarrow> Inl ValueError | Some n \<Rightarrow> Inr n)"

definition cast_int :: "string \<Rightarrow> error + int" where
  "cast_int s =
     (case s of
        [] \<Rightarrow> Inl ValueError
      | c # cs \<Rightarrow>
          if c = CHR ''-''
          then (case cast_nat cs of Inl e \<Rightarrow> Inl e | Inr n \<Rightarrow> Inr (- int n))
          else (case cast_nat s of Inl e \<Rightarrow> Inl e | Inr n \<Rightarrow> Inr (int n)))"


section \<open>A small configuration, used to run the definitions\<close>

definition example_float_str :: "rat \<Rightarrow> string" where
  "example_float_str q = (if q = 1 / 10 then ''0.1'' else ''-2.0'')"

definition example_cast :: "string \<Rightarrow> rat pynum" where
  "example_cast s =
     (if s = ''0.1'' then PyFloat (1 / 10) else if s = ''-2.0'' then PyFloat (- 2) else PyInt 3)"

text \<open>
  Two components with two candidates each: \<open>leg\<close> without states and the
  neural \<open>brain\<close>; two generations of two members; no seed directory. The
  learner fills every placeholder of the template with the candidate's index.
\<close>

definition example_config :: "int config" where
  "example_config =
     \<lparr>PathInfo = \<lparr>trialPath = ''demo'', fileName = ''run'', executable = ''sim'',
                   seedDirectory = ''seeds''\<rparr>,
      TrialProperties = \<lparr>generationCount = 2, generationSize = 2, trialLength = 60,
                          terrains = TerrainString ''flat''\<rparr>,
      entries =
        [(''leg'', \<lparr>PopulationSize = 2,
                    NeuralNetwork = Some \<lparr>numberOfStates = 0, numberOfInstances = 1,
                                           numberOfOutputs = 1, numberOfHidden = 0\<rparr>\<rparr>),
         (''brain'', \<lparr>PopulationSize = 2,
                      NeuralNetwork = Some \<lparr>numberOfStates = 1, numberOfInstances = 1,
                                             numberOfOutputs = 1, numberOfHidden = 1\<rparr>\<rparr>)]\<rparr>"

definition example_self :: "int self" where
  "example_self = LearningJobMaster_setup (\<lambda>p. ''/abs/'' @ p) example_config 1"

definition fill_params :: "'v \<Rightarrow> 'v params \<Rightarrow> 'v params" where
  "fill_params v p =
     (case p of
        PlainParams rows \<Rightarrow> PlainParams (map (map (\<lambda>x. Some v)) rows)
      | NeuralNet vec nA nS nH nF \<Rightarrow> NeuralNet (map (\<lambda>x. Some v) vec) nA nS nH nF)"

definition example_learner :: "int learner" where
  "example_learner componentName componentDictionary templateComponent previousGeneration' =
     Inr (map (\<lambda>i. \<lparr>params = fill_params i (params templateComponent),
                     generationID = generationID templateComponent,
                     populationID = i, paramID = 0, scores = []\<rparr>)
            (py_range (PopulationSize componentDictionary)))"

definition example_fs :: filesystem where
  "example_fs p = None"

definition example_json_dump :: "int member_dict \<Rightarrow> string" where
  "example_json_dump d = ''{}''"

definition example_str_dict :: "int component \<Rightarrow> string" where
  "example_str_dict c = ''{}''"

text \<open>A scheduler that runs every job and leaves none in the list.\<close>

definition example_scheduler :: scheduler where
  "example_scheduler jobs nproc = Inr (jobs, {})"

definition example_json_load :: "string \<Rightarrow> error + int member_dict" where
  "example_json_load s = Inl ValueError"

text \<open>The same run with one member per generation and one configured terrain.\<close>

definition example_self_one_terrain :: "int self" where
  "example_self_one_terrain =
     LearningJobMaster_setup (\<lambda>p. ''/abs/'' @ p)
       (example_config\<lparr>TrialProperties :=
          \<lparr>generationCount = 2, generationSize = 1, trialLength = 60,
           terrains = TerrainList [5]\<rparr>\<rparr>) 1"

definition example_candidate :: "int \<Rightarrow> int component" where
  "example_candidate i =
     \<lparr>params = PlainParams [[Some i]], generationID = 0, populationID = i, paramID = i,
      scores = []\<rparr>"

definition example_populations :: "(string \<times> int component list) list" where
  "example_populations =
     [(''leg'', [example_candidate 0, example_candidate 1]),
      (''brain'', [example_candidate 2, example_candidate 3])]"

definition example_run :: "(int generation \<Rightarrow> bool) \<Rightarrow> error + (int run_state \<times> string list)" where
  "example_run truthy =
     beginTrialMaster example_self_one_terrain truthy example_learner str_int example_json_dump
       example_str_dict example_scheduler example_fs example_json_load (\<lambda>p. p) (\<lambda>k. k)"

text \<open>A seed directory holding one member file.\<close>

definition example_seed_dict :: "int member_dict" where
  "example_seed_dict =
     \<lparr>memberID = IntEntry 0, member_generationID = IntEntry (- 1),
      candidates = [(''leg'', example_candidate 0), (''brain'', example_candidate 2)]\<rparr>"

definition example_seed_fs :: filesystem where
  "example_seed_fs p =
     (if p = ''seeds'' then Some (Directory [''a.json''])
      else if p = ''seeds/a.json'' then Some (File ''A'')
      else None)"

definition example_seed_load :: "string \<Rightarrow> error + int member_dict" where
  "example_seed_load s = (if s = ''A'' then Inr example_seed_dict else Inl ValueError)"

section \<open>Predicates used in the proofs\<close>

text \<open>
  A member numbered \<open>i\<close> of generation \<open>gid\<close> is assembled from the populations
  when its dictionary holds, under each population's name, a candidate of that
  population, holds no candidate under any other key, and still holds its two
  IDs unless a population has taken their key.
\<close>

definition assembled :: "(string \<times> 'v component list) list \<Rightarrow> int \<Rightarrow> int \<Rightarrow> 'v member \<Rightarrow> bool" where
  "assembled pops gid i m \<longleftrightarrow>
     (distinct (map fst pops) \<longrightarrow>
        (\<forall>(name, pop)\<in>set pops. \<exists>c\<in>set pop. get_entry m name = Some (ComponentEntry c))) \<and>
     (\<forall>key c. get_entry m key = Some (ComponentEntry c) \<longrightarrow> key \<in> fst ` set pops) \<and>
     distinct (map fst (candidates (components m))) \<and>
     fst ` set (candidates (components m)) = fst ` set pops - {''memberID'', ''generationID''} \<and>
     (''memberID'' \<notin> fst ` set pops \<longrightarrow> memberID (components m) = IntEntry i) \<and>
     (''generationID'' \<notin> fst ` set pops \<longrightarrow> member_generationID (components m) = IntEntry gid)"

text \<open>
  The name \<open>writeMemberToFile\<close> gives a member's file, and the job the
  dispatcher builds for a file name (one per iteration of the terrain loop).
\<close>

definition member_file :: "'t self \<Rightarrow> ('v component \<Rightarrow> string) \<Rightarrow> 'v member \<Rightarrow> string" where
  "member_file self str_dict member =
     fileName (PathInfo (config self)) @ ''_''
       @ str_entry str_dict (member_generationID (components member)) @ ''_''
       @ str_entry str_dict (memberID (components member)) @ ''.json''"

definition built_job :: "'t self \<Rightarrow> string \<Rightarrow> job" where
  "built_job self fileName' =
     EvolutionJob \<lparr>job_filename = fileName',
                   job_resourcePrefix = RESOURCE_DIRECTORY_NAME,
                   job_path = trialPath (PathInfo (config self)),
                   job_executable = executable (PathInfo (config self)),
                   job_length = trialLength (TrialProperties (config self)),
                   job_terrain = [[0, 0, 0, 0]]\<rparr>"

text \<open>
  The jobs the dispatcher builds for the members of a generation when the terrain
  loop runs \<open>n\<close> times: for each member in order, \<open>n\<close> jobs on that member's file.
\<close>

definition generation_jobs ::
  "'t self \<Rightarrow> ('v component \<Rightarrow> string) \<Rightarrow> nat \<Rightarrow> 'v generation \<Rightarrow> job list" where
  "generation_jobs self str_dict n g =
     concat (map (\<lambda>m. replicate n (built_job self (member_file self str_dict m))) (members g))"

text \<open>Every job of a list carries the flat terrain.\<close>

definition flat_jobs :: "job list \<Rightarrow> bool" where
  "flat_jobs js \<longleftrightarrow> (\<forall>j\<in>set js. job_terrain (args_of j) = [[0, 0, 0, 0]])"


section \<open>Properties of the template component\<close>

lemma length_py_range: "length (py_range n) = nat n"
  by (simp add: py_range_def)

text \<open>
  C7. \<open>createEmptyComponent\<close>: with \<open>numberOfStates = 0\<close> the template's
  parameters are a list of \<open>numberOfInstances\<close> rows, each of \<open>numberOfOutputs\<close>
  placeholders \<open>None\<close>; otherwise they are a vector of
  \<open>(numberOfStates + 1) * numberOfHidden + (numberOfHidden + 1) * numberOfOutputs\<close>
  placeholders with \<open>numActions = numberOfOutputs\<close>, \<open>numStates\<close> and
  \<open>numHidden\<close> recorded. (A length is the configured count when that is not
  negative, and 0 for a negative one, as \<open>range\<close> and list repetition give.)
\<close>

theorem createEmptyComponent_shape:
  "generationID (createEmptyComponent c nn g) = g \<and>
   (numberOfStates nn = 0 \<longrightarrow>
      (\<exists>rows. params (createEmptyComponent c nn g :: 'v emptyComponent) = PlainParams rows \<and>
         length rows = nat (numberOfInstances nn) \<and>
         (0 \<le> numberOfInstances nn \<longrightarrow> int (length rows) = numberOfInstances nn) \<and>
         (\<forall>row\<in>set rows. length row = nat (numberOfOutputs nn) \<and>
            (0 \<le> numberOfOutputs nn \<longrightarrow> int (length row) = numberOfOutputs nn) \<and>
            (\<forall>x\<in>set row. x = None)))) \<and>
   (numberOfStates nn \<noteq> 0 \<longrightarrow>
      (\<exists>vec. params (createEmptyComponent c nn g :: 'v emptyComponent) =
           NeuralNet vec (numberOfOutputs nn) (numberOfStates nn) (numberOfHidden nn) None \<and>
         length vec = nat ((numberOfStates nn + 1) * numberOfHidden nn
                           + (numberOfHidden nn + 1) * numberOfOutputs nn) \<and>
         (0 \<le> (numberOfStates nn + 1) * numberOfHidden nn + (numberOfHidden nn + 1) * numberOfOutputs nn
            \<longrightarrow> int (length vec) = (numberOfStates nn + 1) * numberOfHidden nn
                                   + (numberOfHidden nn + 1) * numberOfOutputs nn) \<and>
         (\<forall>x\<in>set vec. x = None)))"
  by (auto simp: createEmptyComponent_def getNonNNParams_def getNNParams_def length_py_range Let_def)

theorem createEmptyComponent_shape_witness:
  "(\<exists>rows. params (createEmptyComponent ''leg''
        \<lparr>numberOfStates = 0, numberOfInstances = 2, numberOfOutputs = 3, numberOfHidden = 5\<rparr> 4
          :: rat emptyComponent) = PlainParams rows \<and>
      int (length rows) = 2 \<and> (\<forall>row\<in>set rows. int (length row) = 3 \<and> (\<forall>x\<in>set row. x = None))) \<and>
   (\<exists>vec. params (createEmptyComponent ''brain''
        \<lparr>numberOfStates = 2, numberOfInstances = 1, numberOfOutputs = 1, numberOfHidden = 2\<rparr> 0
          :: rat emptyComponent) = NeuralNet vec 1 2 2 None \<and>
      int (length vec) = 9 \<and> (\<forall>x\<in>set vec. x = None))"
  using createEmptyComponent_shape [of "''leg''"
      "\<lparr>numberOfStates = 0, numberOfInstances = 2, numberOfOutputs = 3, numberOfHidden = 5\<rparr>" 4,
      where ?'v = rat]
    createEmptyComponent_shape [of "''brain''"
      "\<lparr>numberOfStates = 2, numberOfInstances = 1, numberOfOutputs = 1, numberOfHidden = 2\<rparr>" 0,
      where ?'v = rat]
  by simp blast

section \<open>Properties of the weight files\<close>

lemma writeToNNW_loop_rest:
  "writeToNNW_loop str xs (acc, False) = (acc @ concat (map (\<lambda>x. '','' @ str x) xs), False)"
  by (induction xs arbitrary: acc) auto

lemma comma_join_Cons: "comma_join (s # ss) = s @ concat (map (\<lambda>t. '','' @ t) ss)"
  by (induction ss arbitrary: s) auto

lemma writeToNNW_join: "writeToNNW str xs = comma_join (map str xs)"
proof (cases xs)
  case Nil
  then show ?thesis by (simp add: writeToNNW_def)
next
  case (Cons x rest)
  then show ?thesis
    by (simp add: writeToNNW_def writeToNNW_loop_rest comma_join_Cons map_concat comp_def del: comma_join.simps)
qed

lemma split_commas_nonempty: "split_commas s \<noteq> []"
  by (induction s) (auto split: list.splits)

lemma split_commas_piece_end:
  "CHR '','' \<notin> set s \<Longrightarrow> split_commas s = [s]"
  by (induction s) (auto split: list.splits)

lemma split_commas_piece:
  "CHR '','' \<notin> set s \<Longrightarrow> split_commas (s @ CHR '','' # rest) = s # split_commas rest"
  by (induction s) (auto split: list.splits)

lemma split_comma_join:
  "ps \<noteq> [] \<Longrightarrow> \<forall>p\<in>set ps. CHR '','' \<notin> set p \<Longrightarrow> split_commas (comma_join ps) = ps"
proof (induction ps rule: comma_join.induct)
  case 1
  then show ?case by simp
next
  case (2 s)
  then show ?case by (simp add: split_commas_piece_end)
next
  case (3 s t ts)
  then show ?case by (simp add: split_commas_piece)
qed

lemma digit_cases: "d < (10::nat) \<Longrightarrow> d \<in> {0, 1, 2, 3, 4, 5, 6, 7, 8, 9}"
  by auto

lemma digit_val_digit_char: "d < 10 \<Longrightarrow> digit_val (digit_char d) = Some d"
  using digit_cases [of d] by (auto simp: digit_val_def digit_char_def)

lemma cast_digits_append:
  "cast_digits acc (s @ t) = (case cast_digits acc s of None \<Rightarrow> None | Some n \<Rightarrow> cast_digits n t)"
  by (induction s arbitrary: acc) (auto split: option.splits)

lemma cast_digits_str_nat: "cast_digits 0 (str_nat n) = Some n"
proof (induction n rule: str_nat.induct)
  case (1 n)
  show ?case
  proof (cases "n < 10")
    case True
    then show ?thesis by (subst str_nat.simps) (simp add: digit_val_digit_char)
  next
    case False
    with 1 have "cast_digits 0 (str_nat (n div 10)) = Some (n div 10)" by simp
    with False show ?thesis
      by (subst str_nat.simps) (simp add: cast_digits_append digit_val_digit_char)
  qed
qed

lemma str_nat_nonempty: "str_nat n \<noteq> []"
  by (subst str_nat.simps) simp

lemma digit_char_range: "d < 10 \<Longrightarrow> digit_char d \<in> set ''0123456789''"
  unfolding digit_char_def by (rule nth_mem) simp

lemma str_nat_digits: "set (str_nat n) \<subseteq> set ''0123456789''"
proof (induction n rule: str_nat.induct)
  case (1 n)
  show ?case
  proof (cases "n < 10")
    case True
    then show ?thesis using digit_char_range [of n] by (subst str_nat.simps) simp
  next
    case False
    with 1 have "set (str_nat (n div 10)) \<subseteq> set ''0123456789''" by simp
    with False show ?thesis using digit_char_range [of "n mod 10"]
      by (subst str_nat.simps) simp
  qed
qed

lemma str_nat_hd_not_minus: "hd (str_nat n) \<noteq> CHR ''-''"
proof -
  have "hd (str_nat n) \<in> set (str_nat n)" by (simp add: str_nat_nonempty)
  with str_nat_digits [of n] have "hd (str_nat n) \<in> set ''0123456789''" by blast
  then show ?thesis by auto
qed

lemma cast_nat_str_nat: "cast_nat (str_nat n) = Inr n"
  by (simp add: cast_nat_def str_nat_nonempty cast_digits_str_nat)

lemma cast_int_str_int: "cast_int (str_int i) = Inr i"
proof (cases "i < 0")
  case True
  then show ?thesis by (simp add: cast_int_def str_int_def cast_nat_str_nat)
next
  case False
  obtain c cs where s: "str_nat (nat i) = c # cs"
    using str_nat_nonempty [of "nat i"] by (cases "str_nat (nat i)") auto
  with str_nat_hd_not_minus [of "nat i"] have "c \<noteq> CHR ''-''" by simp
  moreover have "cast_nat (c # cs) = Inr (nat i)" using cast_nat_str_nat [of "nat i"] s by simp
  ultimately show ?thesis using False s by (simp add: cast_int_def str_int_def)
qed

lemma str_int_no_comma: "CHR '','' \<notin> set (str_int i)"
  using str_nat_digits [of "nat i"] str_nat_digits [of "nat (- i)"]
  by (auto simp: str_int_def)


text \<open>
  C6, as the code has it. \<open>writeToNNW\<close> writes the elements' textual forms
  joined by commas, with nothing after the last one; the vector
  \<open>[0.1, -2.0, 3]\<close>, whose floats have the textual forms \<open>0.1\<close> and \<open>-2.0\<close>,
  is written as \<open>0.1,-2.0,3\<close>. For every non-empty vector whose textual forms
  hold no comma, splitting the text on commas gives back exactly the textual
  forms, so a cast that inverts the textual form gives back the vector; for
  non-empty vectors of ints the cast \<open>int\<close> does.
\<close>

theorem writeToNNW_round_trip:
  "writeToNNW str xs = comma_join (map str xs) \<and>
   (float_str a = ''0.1'' \<and> float_str b = ''-2.0'' \<longrightarrow>
      writeToNNW (str_pynum float_str) [PyFloat a, PyFloat b, PyInt 3] = ''0.1,-2.0,3'') \<and>
   (xs \<noteq> [] \<and> (\<forall>x\<in>set xs. CHR '','' \<notin> set (str x)) \<longrightarrow>
      split_commas (writeToNNW str xs) = map str xs \<and>
      ((\<forall>x\<in>set xs. cast (str x) = x) \<longrightarrow> map cast (split_commas (writeToNNW str xs)) = xs)) \<and>
   (ns \<noteq> [] \<longrightarrow> map cast_int (split_commas (writeToNNW str_int ns)) = map Inr ns)"
proof (intro conjI impI)
  show "writeToNNW str xs = comma_join (map str xs)"
    by (rule writeToNNW_join)
next
  assume "float_str a = ''0.1'' \<and> float_str b = ''-2.0''"
  then show "writeToNNW (str_pynum float_str) [PyFloat a, PyFloat b, PyInt 3] = ''0.1,-2.0,3''"
    by (simp add: writeToNNW_def str_pynum_def str_int_def str_nat.simps digit_char_def)
next
  assume h: "xs \<noteq> [] \<and> (\<forall>x\<in>set xs. CHR '','' \<notin> set (str x))"
  then show split: "split_commas (writeToNNW str xs) = map str xs"
    by (simp add: writeToNNW_join split_comma_join)
  assume "\<forall>x\<in>set xs. cast (str x) = x"
  then have "map cast (map str xs) = xs"
    by (induction xs) auto
  with split show "map cast (split_commas (writeToNNW str xs)) = xs"
    by simp
next
  assume "ns \<noteq> []"
  then have "split_commas (writeToNNW str_int ns) = map str_int ns"
    by (simp add: writeToNNW_join split_comma_join str_int_no_comma)
  then show "map cast_int (split_commas (writeToNNW str_int ns)) = map Inr ns"
    by (simp add: cast_int_str_int)
qed

theorem writeToNNW_round_trip_witness:
  "writeToNNW (str_pynum example_float_str) [PyFloat (1 / 10), PyFloat (- 2), PyInt 3] = ''0.1,-2.0,3'' \<and>
   map example_cast (split_commas (writeToNNW (str_pynum example_float_str)
       [PyFloat (1 / 10), PyFloat (- 2), PyInt 3])) = [PyFloat (1 / 10), PyFloat (- 2), PyInt 3] \<and>
   map cast_int (split_commas (writeToNNW str_int [7, - 12])) = [Inr 7, Inr (- 12)]"
  using writeToNNW_round_trip [of "str_pynum example_float_str"
      "[PyFloat (1 / 10), PyFloat (- 2), PyInt 3]" example_float_str "1 / 10" "- 2" example_cast
      "[7, - 12]"]
  by (simp add: str_pynum_def example_float_str_def example_cast_def str_int_def str_nat.simps
      digit_char_def)

text \<open>
  The empty vector is written as the empty text, which splits into one empty
  piece; no cast of it is the empty vector.
\<close>

theorem writeToNNW_empty_counterexample:
  "map cast_int (split_commas (writeToNNW str_int [])) \<noteq> map Inr []"
  by (simp add: writeToNNW_def)


section \<open>Properties of the population generator\<close>

lemma postProcessComponent_fields:
  assumes "postProcessComponent self str name g c fs = Inr (c', fs')"
    and "map_of (entries (config self)) name = Some cfg"
  shows "paramID c' = PopulationSize cfg * g + populationID c \<and> populationID c' = populationID c
         \<and> scores c' = [] \<and> generationID c' = generationID c"
  using assms by (auto simp: postProcessComponent_def Let_def split: params.splits)

lemma postProcess_loop_fields:
  assumes "postProcess_loop self str name g raw fs = Inr (pop, fs')"
    and "map_of (entries (config self)) name = Some cfg"
  shows "list_all2 (\<lambda>c c'. paramID c' = PopulationSize cfg * g + populationID c
            \<and> populationID c' = populationID c) raw pop"
  using assms
proof (induction raw arbitrary: fs pop)
  case Nil
  then show ?case by simp
next
  case (Cons c rest)
  then show ?case
    by (auto split: sum.splits dest: postProcessComponent_fields)
qed

lemma generateComponentPopulation_fields:
  assumes "generateComponentPopulation self dl str name comps prev g fs = Inr (pop, fs')"
    and "map_of (entries (config self)) name = Some cfg"
  shows "\<exists>cd nn raw. map_of comps name = Some cd \<and> NeuralNetwork cd = Some nn
           \<and> dl name cd (createEmptyComponent name nn g) prev = Inr raw
           \<and> list_all2 (\<lambda>c c'. paramID c' = PopulationSize cfg * g + populationID c
                \<and> populationID c' = populationID c) raw pop"
  using assms
  by (auto simp: generateComponentPopulation_def Let_def split: option.splits sum.splits
      dest: postProcess_loop_fields)

lemma paramID_injective:
  fixes P :: int
  assumes "0 \<le> i" "i < P" "0 \<le> j" "j < P" "P * g + i = P * h + j"
  shows "g = h \<and> i = j"
proof -
  from assms have "P \<noteq> 0" by auto
  have "(i + P * g) div P = g" "(j + P * h) div P = h"
    using assms \<open>P \<noteq> 0\<close> by simp_all
  moreover from assms(5) have "i + P * g = j + P * h" by (simp add: add.commute)
  ultimately have "g = h" by simp
  with assms(5) show ?thesis by simp
qed


lemmas example_unfold =
  example_self_def example_config_def LearningJobMaster_setup_def getComponents_def
  PROTECTED_TERMS_def example_learner_def createEmptyComponent_def getNNParams_def
  getNonNNParams_def py_range_def upto.simps fill_params_def Let_def str_int_def str_nat.simps
  digit_char_def NEURAL_NET_DIRECTORY_NAME_def RESOURCE_DIRECTORY_NAME_def writeToNNW_def
  str_param_def eval_nat_numeral

lemma example_brain_population:
  "generateComponentPopulation example_self example_learner str_int ''brain''
     (getComponents example_self) (Generation (- 1)) 0 [] =
   Inr ([\<lparr>params = NeuralNet [Some 0, Some 0, Some 0, Some 0] 1 1 1
                     (Some ''NeuralNet/run_brain_0_0.nnw''),
           generationID = 0, populationID = 0, paramID = 0, scores = []\<rparr>,
         \<lparr>params = NeuralNet [Some 1, Some 1, Some 1, Some 1] 1 1 1
                     (Some ''NeuralNet/run_brain_0_1.nnw''),
           generationID = 0, populationID = 1, paramID = 1, scores = []\<rparr>],
        [(''/abs/../../../resources/src/demo/NeuralNet/run_brain_0_0.nnw'', ''0,0,0,0''),
         (''/abs/../../../resources/src/demo/NeuralNet/run_brain_0_1.nnw'', ''1,1,1,1'')])"
  by (simp add: generateComponentPopulation_def postProcessComponent_def example_unfold)

lemma example_brain_population_next:
  "generateComponentPopulation example_self example_learner str_int ''brain''
     (getComponents example_self) (Generation 0) 1 [] =
   Inr ([\<lparr>params = NeuralNet [Some 0, Some 0, Some 0, Some 0] 1 1 1
                     (Some ''NeuralNet/run_brain_1_0.nnw''),
           generationID = 1, populationID = 0, paramID = 2, scores = []\<rparr>,
         \<lparr>params = NeuralNet [Some 1, Some 1, Some 1, Some 1] 1 1 1
                     (Some ''NeuralNet/run_brain_1_1.nnw''),
           generationID = 1, populationID = 1, paramID = 3, scores = []\<rparr>],
        [(''/abs/../../../resources/src/demo/NeuralNet/run_brain_1_0.nnw'', ''0,0,0,0''),
         (''/abs/../../../resources/src/demo/NeuralNet/run_brain_1_1.nnw'', ''1,1,1,1'')])"
  by (simp add: generateComponentPopulation_def postProcessComponent_def example_unfold)

text \<open>
  C1. Every candidate that \<open>generateComponentPopulation\<close> returns for component
  \<open>c\<close> and generation index \<open>g\<close> has
  \<open>paramID = PopulationSize(c) * g + populationID\<close>; when the population index
  lies in \<open>[0, PopulationSize(c))\<close> the paramID lies in
  \<open>[PopulationSize(c) * g, PopulationSize(c) * g + PopulationSize(c))\<close>, and two
  candidates of the component with indices in that range, from any two
  generation indices \<open>g\<close> and \<open>h\<close>, never share a paramID unless they agree in
  both the generation index and the population index.
\<close>

theorem paramID_assignment:
  assumes "map_of (entries (config self)) c = Some cfg"
    and "generateComponentPopulation self dl str c comps prev g fs = Inr (pop, fs')"
    and "generateComponentPopulation self dl' str' c comps' prev' h fs2 = Inr (pop', fs2')"
    and "x \<in> set pop" and "y \<in> set pop'"
  shows "paramID x = PopulationSize cfg * g + populationID x \<and>
     (0 \<le> populationID x \<and> populationID x < PopulationSize cfg \<longrightarrow>
        PopulationSize cfg * g \<le> paramID x \<and>
        paramID x < PopulationSize cfg * g + PopulationSize cfg) \<and>
     (0 \<le> populationID x \<and> populationID x < PopulationSize cfg \<and>
      0 \<le> populationID y \<and> populationID y < PopulationSize cfg \<and>
      (g, populationID x) \<noteq> (h, populationID y) \<longrightarrow> paramID x \<noteq> paramID y)"
proof -
  from generateComponentPopulation_fields [OF assms(2) assms(1)] assms(4)
  have px: "paramID x = PopulationSize cfg * g + populationID x"
    by (auto simp: list_all2_conv_all_nth in_set_conv_nth)
  from generateComponentPopulation_fields [OF assms(3) assms(1)] assms(5)
  have py: "paramID y = PopulationSize cfg * h + populationID y"
    by (auto simp: list_all2_conv_all_nth in_set_conv_nth)
  show ?thesis
  proof (intro conjI impI)
    show "paramID x = PopulationSize cfg * g + populationID x" by (rule px)
  next
    assume "0 \<le> populationID x \<and> populationID x < PopulationSize cfg"
    with px show "PopulationSize cfg * g \<le> paramID x" by simp
  next
    assume "0 \<le> populationID x \<and> populationID x < PopulationSize cfg"
    with px show "paramID x < PopulationSize cfg * g + PopulationSize cfg" by simp
  next
    assume a: "0 \<le> populationID x \<and> populationID x < PopulationSize cfg \<and>
      0 \<le> populationID y \<and> populationID y < PopulationSize cfg \<and>
      (g, populationID x) \<noteq> (h, populationID y)"
    show "paramID x \<noteq> paramID y"
    proof
      assume "paramID x = paramID y"
      with px py have "PopulationSize cfg * g + populationID x = PopulationSize cfg * h + populationID y"
        by simp
      with a paramID_injective [of "populationID x" "PopulationSize cfg" "populationID y" g h]
      show False by simp
    qed
  qed
qed


theorem paramID_assignment_witness:
  "map paramID (fst (projr (generateComponentPopulation example_self example_learner str_int
       ''brain'' (getComponents example_self) (Generation (- 1)) 0 []))) = [0, 1] \<and>
   map paramID (fst (projr (generateComponentPopulation example_self example_learner str_int
       ''brain'' (getComponents example_self) (Generation 0) 1 []))) = [2, 3] \<and>
   paramID (fst (projr (generateComponentPopulation example_self example_learner str_int
       ''brain'' (getComponents example_self) (Generation (- 1)) 0 [])) ! 1) \<noteq>
   paramID (fst (projr (generateComponentPopulation example_self example_learner str_int
       ''brain'' (getComponents example_self) (Generation 0) 1 [])) ! 0)"
proof -
  have cfg: "map_of (entries (config example_self)) ''brain'' =
      Some \<lparr>PopulationSize = 2,
            NeuralNetwork = Some \<lparr>numberOfStates = 1, numberOfInstances = 1,
                                   numberOfOutputs = 1, numberOfHidden = 1\<rparr>\<rparr>"
    by (simp add: example_self_def example_config_def LearningJobMaster_setup_def)
  show ?thesis
    using paramID_assignment [OF cfg example_brain_population example_brain_population_next,
        of "\<lparr>params = NeuralNet [Some 1, Some 1, Some 1, Some 1] 1 1 1
                       (Some ''NeuralNet/run_brain_0_1.nnw''),
             generationID = 0, populationID = 1, paramID = 1, scores = []\<rparr>"
           "\<lparr>params = NeuralNet [Some 0, Some 0, Some 0, Some 0] 1 1 1
                       (Some ''NeuralNet/run_brain_1_0.nnw''),
             generationID = 1, populationID = 0, paramID = 2, scores = []\<rparr>"]
    by (simp add: example_brain_population example_brain_population_next)
qed


section \<open>Properties of the generation assembler\<close>

lemma random_choice_member:
  "xs \<noteq> [] \<Longrightarrow> \<exists>x r'. random_choice xs r = Inr (x, r') \<and> x \<in> set xs"
  by (simp add: random_choice_def)

lemma random_choice_error: "random_choice xs r = Inl e \<Longrightarrow> e = IndexError \<and> xs = []"
  by (auto simp: random_choice_def split: if_splits)

lemma random_choice_result: "random_choice xs r = Inr (x, r') \<Longrightarrow> x \<in> set xs"
  by (auto simp: random_choice_def split: if_splits)

lemma get_entry_set_component:
  "get_entry (set_component n c m) key
   = (if key = n then Some (ComponentEntry c) else get_entry m key)"
  by (auto simp: get_entry_def set_component_def update_conv')

lemma candidates_set_component:
  "fst ` set (candidates (components (set_component n c m)))
   = fst ` set (candidates (components m)) \<union> ({n} - {''memberID'', ''generationID''})"
  by (auto simp: set_component_def dom_update)

lemma distinct_set_component:
  "distinct (map fst (candidates (components m))) \<Longrightarrow>
   distinct (map fst (candidates (components (set_component n c m))))"
  by (simp add: set_component_def distinct_update)

lemma get_entry_ID:
  "get_entry m ''memberID'' = Some (memberID (components m))"
  "get_entry m ''generationID'' = Some (member_generationID (components m))"
  by (simp_all add: get_entry_def)

text \<open>A component named like an ID key takes that key over.\<close>

lemma set_component_replaces_ID:
  "member_generationID (components (set_component ''generationID'' c (new_Member i g)))
     = ComponentEntry c"
  "memberID (components (set_component ''memberID'' c (new_Member i g))) = ComponentEntry c"
  by (simp_all add: set_component_def new_Member_def)

lemma get_entry_new_Member:
  "get_entry (new_Member i gid) key \<noteq> Some (ComponentEntry c)"
  by (simp add: get_entry_def new_Member_def)

lemma chooseComponents_returns:
  "\<forall>(name, pop)\<in>set pops. pop \<noteq> [] \<Longrightarrow> \<exists>m' r'. chooseComponents pops m r = Inr (m', r')"
proof (induction pops arbitrary: m r)
  case Nil
  then show ?case by simp
next
  case (Cons a pops)
  obtain name pop where a: "a = (name, pop)" by (cases a)
  with Cons.prems have "pop \<noteq> []" by simp
  then obtain x r1 where "random_choice pop r = Inr (x, r1)"
    using random_choice_member by blast
  moreover from Cons.prems have "\<forall>(name, pop)\<in>set pops. pop \<noteq> []" by simp
  ultimately show ?case using a Cons.IH by simp
qed

lemma chooseComponents_error:
  "chooseComponents pops m r = Inl e \<Longrightarrow> e = IndexError \<and> (\<exists>(name, pop)\<in>set pops. pop = [])"
proof (induction pops arbitrary: m r)
  case Nil
  then show ?case by simp
next
  case (Cons a pops)
  obtain name pop where a: "a = (name, pop)" by (cases a)
  show ?case
  proof (cases "random_choice pop r")
    case (Inl e')
    with Cons.prems a random_choice_error [OF Inl] show ?thesis by simp
  next
    case (Inr p)
    obtain x r1 where "p = (x, r1)" by (cases p)
    with Inr Cons.prems a have "chooseComponents pops (set_component name x m) r1 = Inl e" by simp
    from Cons.IH [OF this] show ?thesis by auto
  qed
qed

lemma chooseComponents_empty_fails:
  "\<exists>(name, pop)\<in>set pops. pop = [] \<Longrightarrow> chooseComponents pops m r = Inl IndexError"
proof (induction pops arbitrary: m r)
  case Nil
  then show ?case by simp
next
  case (Cons a pops)
  obtain name pop where a: "a = (name, pop)" by (cases a)
  show ?case
  proof (cases "pop = []")
    case True
    with a show ?thesis by (simp add: random_choice_def)
  next
    case False
    then obtain x r1 where rc: "random_choice pop r = Inr (x, r1)"
      using random_choice_member by blast
    from False Cons.prems a have "\<exists>(name, pop)\<in>set pops. pop = []" by auto
    from Cons.IH [OF this] rc a show ?thesis by simp
  qed
qed

lemma chooseComponents_step:
  assumes "chooseComponents ((name, pop) # pops) m r = Inr (m', r')"
  obtains x r1 where "x \<in> set pop"
    and "chooseComponents pops (set_component name x m) r1 = Inr (m', r')"
proof (cases "random_choice pop r")
  case (Inl e)
  with assms show ?thesis by simp
next
  case (Inr p)
  obtain x r1 where p: "p = (x, r1)" by (cases p)
  from Inr p have "x \<in> set pop" by (simp add: random_choice_result)
  moreover from Inr p assms have "chooseComponents pops (set_component name x m) r1 = Inr (m', r')"
    by simp
  ultimately show ?thesis by (rule that)
qed

lemma chooseComponents_other_keys:
  "chooseComponents pops m r = Inr (m', r') \<Longrightarrow> key \<notin> fst ` set pops \<Longrightarrow>
   get_entry m' key = get_entry m key"
proof (induction pops arbitrary: m r)
  case Nil
  then show ?case by simp
next
  case (Cons a pops)
  obtain name pop where a: "a = (name, pop)" by (cases a)
  from Cons.prems(1) [unfolded a] obtain x r1 where
    rest: "chooseComponents pops (set_component name x m) r1 = Inr (m', r')"
    by (rule chooseComponents_step)
  from Cons.prems(2) a have "key \<noteq> name" and "key \<notin> fst ` set pops" by simp_all
  with Cons.IH [OF rest] have "get_entry m' key = get_entry (set_component name x m) key"
    by simp
  with \<open>key \<noteq> name\<close> show ?case by (simp add: get_entry_set_component)
qed

lemma chooseComponents_chosen:
  "chooseComponents pops m r = Inr (m', r') \<Longrightarrow> distinct (map fst pops) \<Longrightarrow>
   (name, pop) \<in> set pops \<Longrightarrow> \<exists>c\<in>set pop. get_entry m' name = Some (ComponentEntry c)"
proof (induction pops arbitrary: m r)
  case Nil
  then show ?case by simp
next
  case (Cons a pops)
  obtain name' pop' where a: "a = (name', pop')" by (cases a)
  from Cons.prems(1) [unfolded a] obtain x r1 where xin: "x \<in> set pop'"
    and rest: "chooseComponents pops (set_component name' x m) r1 = Inr (m', r')"
    by (rule chooseComponents_step)
  from Cons.prems(2) a have nin: "name' \<notin> fst ` set pops" and d: "distinct (map fst pops)"
    by simp_all
  show ?case
  proof (cases "(name, pop) = a")
    case True
    with a have eq: "name = name'" "pop = pop'" by simp_all
    from chooseComponents_other_keys [OF rest nin]
    have "get_entry m' name' = Some (ComponentEntry x)"
      by (simp add: get_entry_set_component)
    with xin eq show ?thesis by blast
  next
    case False
    with Cons.prems(3) have "(name, pop) \<in> set pops" by simp
    from Cons.IH [OF rest d this] show ?thesis .
  qed
qed

lemma chooseComponents_distinct:
  "chooseComponents pops m r = Inr (m', r') \<Longrightarrow> distinct (map fst (candidates (components m))) \<Longrightarrow>
   distinct (map fst (candidates (components m')))"
proof (induction pops arbitrary: m r)
  case Nil
  then show ?case by simp
next
  case (Cons a pops)
  obtain name pop where a: "a = (name, pop)" by (cases a)
  from Cons.prems(1) [unfolded a] obtain x r1 where
    rest: "chooseComponents pops (set_component name x m) r1 = Inr (m', r')"
    by (rule chooseComponents_step)
  from Cons.IH [OF rest distinct_set_component [OF Cons.prems(2)]] show ?case .
qed

lemma chooseComponents_names:
  "chooseComponents pops m r = Inr (m', r') \<Longrightarrow>
   fst ` set (candidates (components m'))
     = fst ` set (candidates (components m)) \<union> (fst ` set pops - {''memberID'', ''generationID''})"
proof (induction pops arbitrary: m r)
  case Nil
  then show ?case by simp
next
  case (Cons a pops)
  obtain name pop where a: "a = (name, pop)" by (cases a)
  from Cons.prems(1) [unfolded a] obtain x r1 where
    rest: "chooseComponents pops (set_component name x m) r1 = Inr (m', r')"
    by (rule chooseComponents_step)
  have "fst ` set (candidates (components m'))
     = (fst ` set (candidates (components m)) \<union> ({name} - {''memberID'', ''generationID''}))
        \<union> (fst ` set pops - {''memberID'', ''generationID''})"
    using Cons.IH [OF rest] by (simp only: candidates_set_component)
  also have "\<dots> = fst ` set (candidates (components m))
        \<union> (fst ` set (a # pops) - {''memberID'', ''generationID''})"
    unfolding a by auto
  finally show ?case .
qed

lemma createMembers_returns:
  "\<forall>(name, pop)\<in>set pops. pop \<noteq> [] \<Longrightarrow> \<exists>g' r'. createMembers pops gid ids g r = Inr (g', r')"
proof (induction ids arbitrary: g r)
  case Nil
  then show ?case by simp
next
  case (Cons i ids)
  from chooseComponents_returns [OF Cons.prems] obtain m' r1 where
    "chooseComponents pops (new_Member i gid) r = Inr (m', r1)" by blast
  with Cons.IH [OF Cons.prems] show ?case by simp
qed

lemma createMembers_empty_fails:
  "ids \<noteq> [] \<Longrightarrow> \<exists>(name, pop)\<in>set pops. pop = [] \<Longrightarrow>
   createMembers pops gid ids g r = Inl IndexError"
  by (cases ids) (simp_all add: chooseComponents_empty_fails)

lemma createMembers_error:
  "createMembers pops gid ids g r = Inl e \<Longrightarrow>
   e = IndexError \<and> (\<exists>(name, pop)\<in>set pops. pop = [])"
proof (induction ids arbitrary: g r)
  case Nil
  then show ?case by simp
next
  case (Cons i ids)
  show ?case
  proof (cases "chooseComponents pops (new_Member i gid) r")
    case (Inl e')
    with Cons.prems have "e' = e" by simp
    with chooseComponents_error [OF Inl] show ?thesis by simp
  next
    case (Inr p)
    obtain m r1 where "p = (m, r1)" by (cases p)
    with Inr Cons.prems have "createMembers pops gid ids (addMember g m) r1 = Inl e" by simp
    then show ?thesis by (rule Cons.IH)
  qed
qed

lemma chooseComponents_assembled:
  assumes "chooseComponents pops (new_Member i gid) r = Inr (m', r')"
  shows "assembled pops gid i m'"
  unfolding assembled_def
proof (intro conjI impI allI ballI)
  fix a assume d: "distinct (map fst pops)" and a: "a \<in> set pops"
  obtain name pop where eq: "a = (name, pop)" by (cases a)
  from chooseComponents_chosen [OF assms d a [unfolded eq]] eq
  show "case a of (name, pop) \<Rightarrow> \<exists>c\<in>set pop. get_entry m' name = Some (ComponentEntry c)"
    by simp
next
  fix key c assume e: "get_entry m' key = Some (ComponentEntry c)"
  show "key \<in> fst ` set pops"
  proof (rule ccontr)
    assume "key \<notin> fst ` set pops"
    from chooseComponents_other_keys [OF assms this] e
    have "get_entry (new_Member i gid) key = Some (ComponentEntry c)" by simp
    with get_entry_new_Member [of i gid key c] show False by simp
  qed
next
  have "distinct (map fst (candidates (components (new_Member i gid :: 'a member))))"
    by (simp add: new_Member_def)
  from chooseComponents_distinct [OF assms this]
  show "distinct (map fst (candidates (components m')))" .
next
  from chooseComponents_names [OF assms]
  show "fst ` set (candidates (components m')) = fst ` set pops - {''memberID'', ''generationID''}"
    by (simp add: new_Member_def)
next
  assume "''memberID'' \<notin> fst ` set pops"
  from chooseComponents_other_keys [OF assms this]
  show "memberID (components m') = IntEntry i"
    by (simp add: get_entry_ID new_Member_def)
next
  assume "''generationID'' \<notin> fst ` set pops"
  from chooseComponents_other_keys [OF assms this]
  show "member_generationID (components m') = IntEntry gid"
    by (simp add: get_entry_ID new_Member_def)
qed

lemma createMembers_result:
  assumes "createMembers pops gid ids g r = Inr (g', r')"
  shows "ID g' = ID g \<and> (\<exists>new. members g' = members g @ new \<and> list_all2 (assembled pops gid) ids new)"
  using assms
proof (induction ids arbitrary: g r)
  case Nil
  then show ?case by simp
next
  case (Cons i ids)
  from Cons.prems obtain m r1 where ch: "chooseComponents pops (new_Member i gid) r = Inr (m, r1)"
    and rest: "createMembers pops gid ids (addMember g m) r1 = Inr (g', r')"
    by (auto split: sum.splits)
  from Cons.IH [OF rest] obtain new where
    "ID g' = ID (addMember g m)" "members g' = members (addMember g m) @ new"
    "list_all2 (assembled pops gid) ids new" by blast
  with chooseComponents_assembled [OF ch] show ?case
    by (simp add: addMember_def)
qed

lemma createNewGeneration_result:
  assumes "createNewGeneration self pops gid r = Inr (gen, r')"
  shows "ID gen = gid \<and> list_all2 (assembled pops gid)
           (py_range (generationSize (TrialProperties (config self)))) (members gen)"
  using createMembers_result [OF assms [unfolded createNewGeneration_def]]
  by (simp add: Generation_def)


text \<open>
  C2. For populations that are all non-empty (the mapping's names being
  distinct, as a dictionary's keys are), \<open>createNewGeneration\<close> returns a
  generation with the given ID and \<open>generationSize\<close> members (none for a
  negative size, as \<open>range\<close> gives). Every member's dictionary holds, under each
  name of the mapping, one candidate, taken from that name's population, and
  holds no candidate under any other key; beside the two ID keys its keys are
  the mapping's names, each once. The key \<open>generationID\<close> holds the generation's
  ID unless a component has that name.
\<close>

theorem createNewGeneration_members:
  assumes "\<forall>(name, pop)\<in>set componentPopulations. pop \<noteq> []"
    and "distinct (map fst componentPopulations)"
  shows "\<exists>gen r'. createNewGeneration self componentPopulations gid r = Inr (gen, r') \<and>
     ID gen = gid \<and>
     length (members gen) = nat (generationSize (TrialProperties (config self))) \<and>
     (0 \<le> generationSize (TrialProperties (config self)) \<longrightarrow>
        int (length (members gen)) = generationSize (TrialProperties (config self))) \<and>
     (\<forall>m\<in>set (members gen).
        (\<forall>(name, pop)\<in>set componentPopulations.
           \<exists>c\<in>set pop. get_entry m name = Some (ComponentEntry c)) \<and>
        (\<forall>key c. get_entry m key = Some (ComponentEntry c) \<longrightarrow>
           key \<in> fst ` set componentPopulations) \<and>
        distinct (map fst (candidates (components m))) \<and>
        fst ` set (candidates (components m))
          = fst ` set componentPopulations - {''memberID'', ''generationID''} \<and>
        (''generationID'' \<notin> fst ` set componentPopulations \<longrightarrow>
           member_generationID (components m) = IntEntry gid))"
proof -
  from createMembers_returns [OF assms(1)] obtain gen r' where
    res: "createNewGeneration self componentPopulations gid r = Inr (gen, r')"
    unfolding createNewGeneration_def by blast
  note all = createNewGeneration_result [OF res]
  then have len: "length (members gen) = nat (generationSize (TrialProperties (config self)))"
    by (auto dest: list_all2_lengthD simp: py_range_def)
  have each: "\<forall>m\<in>set (members gen). \<exists>i. assembled componentPopulations gid i m"
    using all by (fastforce simp: list_all2_conv_all_nth in_set_conv_nth)
  have "(\<forall>(name, pop)\<in>set componentPopulations.
           \<exists>c\<in>set pop. get_entry m name = Some (ComponentEntry c)) \<and>
        (\<forall>key c. get_entry m key = Some (ComponentEntry c) \<longrightarrow>
           key \<in> fst ` set componentPopulations) \<and>
        distinct (map fst (candidates (components m))) \<and>
        fst ` set (candidates (components m))
          = fst ` set componentPopulations - {''memberID'', ''generationID''} \<and>
        (''generationID'' \<notin> fst ` set componentPopulations \<longrightarrow>
           member_generationID (components m) = IntEntry gid)"
    if "m \<in> set (members gen)" for m
  proof -
    from each [rule_format, OF that] obtain i where "assembled componentPopulations gid i m" ..
    then show ?thesis using assms(2) unfolding assembled_def by simp
  qed
  then have members: "\<forall>m\<in>set (members gen).
        (\<forall>(name, pop)\<in>set componentPopulations.
           \<exists>c\<in>set pop. get_entry m name = Some (ComponentEntry c)) \<and>
        (\<forall>key c. get_entry m key = Some (ComponentEntry c) \<longrightarrow>
           key \<in> fst ` set componentPopulations) \<and>
        distinct (map fst (candidates (components m))) \<and>
        fst ` set (candidates (components m))
          = fst ` set componentPopulations - {''memberID'', ''generationID''} \<and>
        (''generationID'' \<notin> fst ` set componentPopulations \<longrightarrow>
           member_generationID (components m) = IntEntry gid)"
    by (rule ballI)
  from all have "ID gen = gid" by simp
  with res len members show ?thesis
    by (intro exI [of _ gen] exI [of _ r']) simp
qed

theorem createNewGeneration_members_witness:
  "\<exists>gen r'. createNewGeneration example_self example_populations 0 (\<lambda>k. k) = Inr (gen, r') \<and>
     ID gen = 0 \<and> int (length (members gen)) = 2"
proof -
  have nonempty: "\<forall>(name, pop)\<in>set example_populations. pop \<noteq> []"
    by (simp add: example_populations_def)
  have names: "distinct (map fst example_populations)"
    by (simp add: example_populations_def)
  have size: "generationSize (TrialProperties (config example_self)) = 2"
    by (simp add: example_self_def example_config_def LearningJobMaster_setup_def)
  from createNewGeneration_members [OF nonempty names, of example_self 0 "\<lambda>k. k"] size
  show ?thesis by auto
qed

text \<open>
  C10. \<open>random.choice\<close> on a non-empty population returns one of its elements;
  when every population is non-empty \<open>createNewGeneration\<close> returns a
  generation; the only exception it raises is the \<open>IndexError\<close> of a choice from
  an empty population, and it does raise it whenever some population is empty
  and at least one member is to be built.
\<close>

theorem createNewGeneration_total_iff_nonempty:
  "(xs \<noteq> [] \<longrightarrow> (\<exists>x r'. random_choice xs r = Inr (x, r') \<and> x \<in> set xs)) \<and>
   ((\<forall>(name, pop)\<in>set componentPopulations. pop \<noteq> []) \<longrightarrow>
      (\<exists>gen r'. createNewGeneration self componentPopulations gid r = Inr (gen, r'))) \<and>
   (createNewGeneration self componentPopulations gid r = Inl e \<longrightarrow>
      e = IndexError \<and> (\<exists>(name, pop)\<in>set componentPopulations. pop = [])) \<and>
   (0 < generationSize (TrialProperties (config self)) \<and>
    (\<exists>(name, pop)\<in>set componentPopulations. pop = []) \<longrightarrow>
      createNewGeneration self componentPopulations gid r = Inl IndexError)"
proof (intro conjI impI)
  assume "xs \<noteq> []"
  then show "\<exists>x r'. random_choice xs r = Inr (x, r') \<and> x \<in> set xs"
    by (rule random_choice_member)
next
  assume "\<forall>(name, pop)\<in>set componentPopulations. pop \<noteq> []"
  then show "\<exists>gen r'. createNewGeneration self componentPopulations gid r = Inr (gen, r')"
    unfolding createNewGeneration_def by (rule createMembers_returns)
next
  assume "createNewGeneration self componentPopulations gid r = Inl e"
  then have err: "e = IndexError \<and> (\<exists>(name, pop)\<in>set componentPopulations. pop = [])"
    unfolding createNewGeneration_def by (rule createMembers_error)
  from err show "e = IndexError" by simp
  from err show "\<exists>(name, pop)\<in>set componentPopulations. pop = []" by simp
next
  assume a: "0 < generationSize (TrialProperties (config self)) \<and>
    (\<exists>(name, pop)\<in>set componentPopulations. pop = [])"
  then have "py_range (generationSize (TrialProperties (config self))) \<noteq> []"
    by (simp add: py_range_def upto.simps)
  with a show "createNewGeneration self componentPopulations gid r = Inl IndexError"
    unfolding createNewGeneration_def by (simp add: createMembers_empty_fails)
qed


theorem createNewGeneration_total_iff_nonempty_witness:
  "(\<exists>x r'. random_choice [10, 20 :: int] (\<lambda>k. k) = Inr (x, r') \<and> x \<in> set [10, 20]) \<and>
   (\<exists>gen r'. createNewGeneration example_self example_populations 0 (\<lambda>k. k) = Inr (gen, r')) \<and>
   createNewGeneration example_self [(''leg'', [] :: int component list)] 0 (\<lambda>k. k)
     = Inl IndexError"
proof -
  have nonempty: "\<forall>(name, pop)\<in>set example_populations. pop \<noteq> []"
    by (simp add: example_populations_def)
  have size: "0 < generationSize (TrialProperties (config example_self))"
    by (simp add: example_self_def example_config_def LearningJobMaster_setup_def)
  have empty: "\<exists>(name, pop)\<in>set [(''leg'', [] :: int component list)]. pop = []"
    by simp
  from createNewGeneration_total_iff_nonempty [where xs = "[10, 20 :: int]" and r = "\<lambda>k. k"
      and componentPopulations = example_populations and self = example_self and gid = 0]
    nonempty
  have first: "(\<exists>x r'. random_choice [10, 20 :: int] (\<lambda>k. k) = Inr (x, r') \<and> x \<in> set [10, 20]) \<and>
     (\<exists>gen r'. createNewGeneration example_self example_populations 0 (\<lambda>k. k) = Inr (gen, r'))"
    by simp
  from createNewGeneration_total_iff_nonempty [where xs = "[10, 20 :: int]" and r = "\<lambda>k. k"
      and componentPopulations = "[(''leg'', [] :: int component list)]"
      and self = example_self and gid = 0 and e = IndexError] size empty
  have "createNewGeneration example_self [(''leg'', [] :: int component list)] 0 (\<lambda>k. k)
     = Inl IndexError"
    by blast
  with first show ?thesis by simp
qed


section \<open>Properties of the seed importer\<close>

lemma importSeed_loop_loads:
  assumes "\<forall>n\<in>set names. \<exists>body d. fs (abspath sd @ ''/'' @ n) = Some (File body) \<and> json_load body = Inr d"
  shows "\<exists>g'. importSeed_loop fs json_load abspath sd names g = Inr g' \<and> ID g' = ID g \<and>
     (\<exists>new. members g' = members g @ new \<and>
        list_all2 (\<lambda>n m. \<exists>body. fs (abspath sd @ ''/'' @ n) = Some (File body)
                      \<and> json_load body = Inr (components m)) names new)"
  using assms
proof (induction names arbitrary: g)
  case Nil
  then show ?case by simp
next
  case (Cons n names)
  from Cons.prems obtain body d where f: "fs (abspath sd @ ''/'' @ n) = Some (File body)"
    and j: "json_load body = Inr d" by auto
  from Cons.prems have "\<forall>n\<in>set names. \<exists>body d. fs (abspath sd @ ''/'' @ n) = Some (File body) \<and> json_load body = Inr d"
    by simp
  from Cons.IH [of "addMember g (Member d)"] this obtain g' new where
    "importSeed_loop fs json_load abspath sd names (addMember g (Member d)) = Inr g'"
    "ID g' = ID (addMember g (Member d))" "members g' = members (addMember g (Member d)) @ new"
    "list_all2 (\<lambda>n m. \<exists>body. fs (abspath sd @ ''/'' @ n) = Some (File body)
                      \<and> json_load body = Inr (components m)) names new" by blast
  with f j show ?case by (simp add: addMember_def Let_def)
qed


text \<open>
  C8. When the configured seed path is not a directory (absent, or a file),
  \<open>importSeedGeneration\<close> raises nothing: it returns the empty generation
  with ID \<open>-1\<close> and prints the warning, and the run goes on into its loop with
  that empty generation as the previous one. When the path is a directory whose
  entries are all files that parse as JSON, the returned generation has ID
  \<open>-1\<close>, nothing is printed, and its members are the loaded records, each
  wrapped as a member, in the order of the listing.
\<close>

theorem importSeedGeneration_cases:
  "(\<not> isdir fs (seedDirectory (PathInfo (config self))) \<longrightarrow>
      importSeedGeneration self fs json_load abspath = Inr (Generation (- 1), [seed_warning]) \<and>
      ID (Generation (- 1) :: 'v generation) = - 1 \<and>
      members (Generation (- 1) :: 'v generation) = [] \<and>
      beginTrialMaster self truthy dispatchLearning str json_dump str_dict processJobs fs
          json_load abspath r =
        (case generation_loop self truthy dispatchLearning str json_dump str_dict processJobs
                (py_range (generationCount (TrialProperties (config self))))
                \<lparr>run_files = [], run_rng = r, jobList = [],
                 previousGeneration = Generation (- 1), generations = [], submitted = []\<rparr> of
           Inl e \<Rightarrow> Inl e
         | Inr st \<Rightarrow> Inr (st, [seed_warning]))) \<and>
   (fs (seedDirectory (PathInfo (config self))) = Some (Directory names) \<and>
    (\<forall>n\<in>set names. \<exists>body d.
        fs (abspath (seedDirectory (PathInfo (config self))) @ ''/'' @ n) = Some (File body) \<and>
        json_load body = Inr (d :: 'v member_dict)) \<longrightarrow>
      (\<exists>g. importSeedGeneration self fs json_load abspath = Inr (g, []) \<and>
         ID g = - 1 \<and> length (members g) = length names \<and>
         (\<forall>k<length names. \<exists>body.
            fs (abspath (seedDirectory (PathInfo (config self))) @ ''/'' @ names ! k) = Some (File body) \<and>
            json_load body = Inr (components (members g ! k)))))"
proof (intro conjI impI)
  assume nd: "\<not> isdir fs (seedDirectory (PathInfo (config self)))"
  then show imp: "importSeedGeneration self fs json_load abspath = Inr (Generation (- 1), [seed_warning])"
    by (simp add: importSeedGeneration_def)
  show "ID (Generation (- 1) :: 'v generation) = - 1" by (simp add: Generation_def)
  show "members (Generation (- 1) :: 'v generation) = []" by (simp add: Generation_def)
  from imp show "beginTrialMaster self truthy dispatchLearning str json_dump str_dict processJobs fs
          json_load abspath r =
        (case generation_loop self truthy dispatchLearning str json_dump str_dict processJobs
                (py_range (generationCount (TrialProperties (config self))))
                \<lparr>run_files = [], run_rng = r, jobList = [],
                 previousGeneration = Generation (- 1), generations = [], submitted = []\<rparr> of
           Inl e \<Rightarrow> Inl e
         | Inr st \<Rightarrow> Inr (st, [seed_warning]))"
    by (simp add: beginTrialMaster_def)
next
  assume a: "fs (seedDirectory (PathInfo (config self))) = Some (Directory names) \<and>
    (\<forall>n\<in>set names. \<exists>body d.
        fs (abspath (seedDirectory (PathInfo (config self))) @ ''/'' @ n) = Some (File body) \<and>
        json_load body = Inr (d :: 'v member_dict))"
  then have "\<forall>n\<in>set names. \<exists>body d.
        fs (abspath (seedDirectory (PathInfo (config self))) @ ''/'' @ n) = Some (File body) \<and>
        json_load body = Inr d" by simp
  from importSeed_loop_loads [where fs = fs and abspath = abspath and json_load = json_load
      and sd = "seedDirectory (PathInfo (config self))" and names = names
      and g = "Generation (- 1)"] this obtain g new where
    l: "importSeed_loop fs json_load abspath (seedDirectory (PathInfo (config self))) names (Generation (- 1)) = Inr g"
    and i: "ID g = - 1" and m: "members g = new"
    and all: "list_all2 (\<lambda>n m. \<exists>body. fs (abspath (seedDirectory (PathInfo (config self))) @ ''/'' @ n) = Some (File body)
                      \<and> json_load body = Inr (components m)) names new"
    by (auto simp: Generation_def)
  from a l have "importSeedGeneration self fs json_load abspath = Inr (g, [])"
    by (simp add: importSeedGeneration_def isdir_def listdir_def)
  moreover from all m have "length (members g) = length names"
    by (auto dest: list_all2_lengthD)
  moreover from all m have "\<forall>k<length names. \<exists>body.
            fs (abspath (seedDirectory (PathInfo (config self))) @ ''/'' @ names ! k) = Some (File body) \<and>
            json_load body = Inr (components (members g ! k))"
    by (auto simp: list_all2_conv_all_nth)
  ultimately show "\<exists>g. importSeedGeneration self fs json_load abspath = Inr (g, []) \<and>
         ID g = - 1 \<and> length (members g) = length names \<and>
         (\<forall>k<length names. \<exists>body.
            fs (abspath (seedDirectory (PathInfo (config self))) @ ''/'' @ names ! k) = Some (File body) \<and>
            json_load body = Inr (components (members g ! k)))"
    using i by blast
qed

theorem importSeedGeneration_cases_witness:
  "importSeedGeneration example_self example_fs example_json_load (\<lambda>p. p)
     = Inr (Generation (- 1), [seed_warning]) \<and>
   importSeedGeneration example_self example_seed_fs example_seed_load (\<lambda>p. p)
     = Inr (\<lparr>ID = - 1, members = [Member example_seed_dict]\<rparr>, [])"
proof -
  have nodir: "\<not> isdir example_fs (seedDirectory (PathInfo (config example_self)))"
    by (simp add: isdir_def example_fs_def)
  have dir: "example_seed_fs (seedDirectory (PathInfo (config example_self))) = Some (Directory [''a.json''])"
    by (simp add: example_seed_fs_def example_self_def example_config_def LearningJobMaster_setup_def)
  have files: "\<forall>n\<in>set [''a.json'']. \<exists>body d.
      example_seed_fs ((\<lambda>p. p) (seedDirectory (PathInfo (config example_self))) @ ''/'' @ n) = Some (File body) \<and>
      example_seed_load body = Inr d"
    by (simp add: example_seed_fs_def example_seed_load_def example_self_def example_config_def LearningJobMaster_setup_def)
  from importSeedGeneration_cases [where fs = example_fs and self = example_self
      and json_load = example_json_load and abspath = "\<lambda>p. p"] nodir
  have first: "importSeedGeneration example_self example_fs example_json_load (\<lambda>p. p)
     = Inr (Generation (- 1), [seed_warning])" by blast
  from importSeedGeneration_cases [where fs = example_seed_fs and self = example_self
      and json_load = example_seed_load and abspath = "\<lambda>p. p" and names = "[''a.json'']"] dir files
  obtain g where "importSeedGeneration example_self example_seed_fs example_seed_load (\<lambda>p. p) = Inr (g, [])"
    by blast
  then have "importSeedGeneration example_self example_seed_fs example_seed_load (\<lambda>p. p)
     = Inr (\<lparr>ID = - 1, members = [Member example_seed_dict]\<rparr>, [])"
    by (simp add: importSeedGeneration_def isdir_def listdir_def example_seed_fs_def example_seed_load_def example_self_def example_config_def LearningJobMaster_setup_def Generation_def addMember_def)
  with first show ?thesis by simp
qed



section \<open>Properties of the run\<close>

lemma terrain_loop_jobs:
  "terrain_loop self fn items jl = jl @ replicate (length items) (built_job self fn)"
  by (induction items arbitrary: jl) (simp_all add: built_job_def Let_def replicate_app_Cons_same)

lemma iter_terrains_len:
  "iter_terrains tc = Inr items \<Longrightarrow> len_terrains tc = Inr (length items)"
  by (auto simp: iter_terrains_def len_terrains_def split: terrains_cfg.splits)

lemma writeMemberToFile_name: "fst (writeMemberToFile self jd sd m fs) = member_file self sd m"
  by (simp add: writeMemberToFile_def member_file_def Let_def)

lemma member_body_jobs:
  assumes "member_body self jd sd m (fs, jl) = Inr (fs', jl')"
  shows "\<exists>n. len_terrains (terrains (TrialProperties (config self))) = Inr n \<and>
           jl' = jl @ replicate n (built_job self (member_file self sd m))"
proof -
  obtain fn fs1 where w: "writeMemberToFile self jd sd m fs = (fn, fs1)"
    by (cases "writeMemberToFile self jd sd m fs")
  with writeMemberToFile_name [of self jd sd m fs] have fn: "fn = member_file self sd m" by simp
  from assms w obtain items where it: "iter_terrains (terrains (TrialProperties (config self))) = Inr items"
    and j: "jl' = terrain_loop self fn items jl"
    by (auto simp: member_body_def split: sum.splits)
  from iter_terrains_len [OF it] j fn show ?thesis
    by (simp add: terrain_loop_jobs)
qed

lemma member_loop_jobs:
  assumes "member_loop self jd sd ms (fs, jl) = Inr (fs', jl')"
  shows "\<exists>n. (ms = [] \<or> len_terrains (terrains (TrialProperties (config self))) = Inr n) \<and>
           jl' = jl @ concat (map (\<lambda>m. replicate n (built_job self (member_file self sd m))) ms)"
  using assms
proof (induction ms arbitrary: fs jl)
  case Nil
  then show ?case by simp
next
  case (Cons m ms)
  from Cons.prems obtain fs1 jl1 where b: "member_body self jd sd m (fs, jl) = Inr (fs1, jl1)"
    and l: "member_loop self jd sd ms (fs1, jl1) = Inr (fs', jl')"
    by (auto split: sum.splits)
  from member_body_jobs [OF b] obtain n where n: "len_terrains (terrains (TrialProperties (config self))) = Inr n"
    and j1: "jl1 = jl @ replicate n (built_job self (member_file self sd m))" by blast
  from Cons.IH [OF l] obtain n' where
    d: "ms = [] \<or> len_terrains (terrains (TrialProperties (config self))) = Inr n'"
    and j': "jl' = jl1 @ concat (map (\<lambda>m. replicate n' (built_job self (member_file self sd m))) ms)" by blast
  from d n have "jl' = jl1 @ concat (map (\<lambda>m. replicate n (built_job self (member_file self sd m))) ms)"
    using j' by auto
  with n j1 show ?case by auto
qed

lemma generationGenerator_result:
  assumes "generationGenerator self truthy dl str prev w = Inr (g, fs', r')"
  shows "ID g = getNewGenerationID truthy (Some prev) \<and>
         length (members g) = nat (generationSize (TrialProperties (config self)))"
proof -
  from assms obtain pops r where
    "createNewGeneration self pops (getNewGenerationID truthy (Some prev)) r = Inr (g, r')"
    by (auto simp: generationGenerator_def Let_def split: sum.splits)
  from createNewGeneration_result [OF this] show ?thesis
    by (auto dest: list_all2_lengthD simp: py_range_def)
qed

lemma generation_jobs_empty: "members g = [] \<Longrightarrow> generation_jobs self sd n g = []"
  by (simp add: generation_jobs_def)

lemma generation_body_result:
  assumes "generation_body self truthy dl str jd sd pj st = Inr st'"
  shows "generations st' = generations st @ [previousGeneration st'] \<and>
     ID (previousGeneration st') = getNewGenerationID truthy (Some (previousGeneration st)) \<and>
     length (members (previousGeneration st')) = nat (generationSize (TrialProperties (config self))) \<and>
     (\<exists>n completed left.
        (members (previousGeneration st') = [] \<or>
           len_terrains (terrains (TrialProperties (config self))) = Inr n) \<and>
        submitted st' = submitted st @ [jobList st @ generation_jobs self sd n (previousGeneration st')] \<and>
        pj (jobList st @ generation_jobs self sd n (previousGeneration st')) (numProcesses self)
          = Inr (completed, left) \<and>
        jobList st' = nths (jobList st @ generation_jobs self sd n (previousGeneration st')) left)"
proof -
  from assms obtain g fs1 r1 fs2 jl2 completed left where
    gg: "generationGenerator self truthy dl str (previousGeneration st) (run_files st, run_rng st) = Inr (g, fs1, r1)"
    and ml: "member_loop self jd sd (getMembers g) (fs1, jobList st) = Inr (fs2, jl2)"
    and sch: "pj jl2 (numProcesses self) = Inr (completed, left)"
    and st': "st' = \<lparr>run_files = fs2, run_rng = r1, jobList = nths jl2 left, previousGeneration = g,
                    generations = generations st @ [g], submitted = submitted st @ [jl2]\<rparr>"
    by (auto simp: generation_body_def split: sum.splits)
  from member_loop_jobs [OF ml] obtain n where
    n: "members g = [] \<or> len_terrains (terrains (TrialProperties (config self))) = Inr n"
    and jl2: "jl2 = jobList st @ generation_jobs self sd n g"
    by (auto simp: getMembers_def generation_jobs_def)
  from generationGenerator_result [OF gg] have
    "ID g = getNewGenerationID truthy (Some (previousGeneration st))"
    "length (members g) = nat (generationSize (TrialProperties (config self)))" by simp_all
  with n jl2 sch st' show ?thesis
    by (intro conjI exI [of _ n] exI [of _ completed] exI [of _ left]) simp_all
qed

lemma generation_body_batch:
  assumes "generation_body self truthy dl str jd sd pj st = Inr st'"
    and "len_terrains (terrains (TrialProperties (config self))) = Inr n"
  shows "\<exists>completed left.
     submitted st' = submitted st @ [jobList st @ generation_jobs self sd n (previousGeneration st')] \<and>
     pj (jobList st @ generation_jobs self sd n (previousGeneration st')) (numProcesses self)
       = Inr (completed, left) \<and>
     jobList st' = nths (jobList st @ generation_jobs self sd n (previousGeneration st')) left"
proof -
  from generation_body_result [OF assms(1)] obtain n' completed left where
    d: "members (previousGeneration st') = [] \<or>
           len_terrains (terrains (TrialProperties (config self))) = Inr n'"
    and s: "submitted st' = submitted st @ [jobList st @ generation_jobs self sd n' (previousGeneration st')]"
    and p: "pj (jobList st @ generation_jobs self sd n' (previousGeneration st')) (numProcesses self)
          = Inr (completed, left)"
    and j: "jobList st' = nths (jobList st @ generation_jobs self sd n' (previousGeneration st')) left"
    by (elim conjE exE)
  from d assms(2) have "generation_jobs self sd n' (previousGeneration st')
      = generation_jobs self sd n (previousGeneration st')"
    by (auto simp: generation_jobs_empty)
  with s p j show ?thesis
    by (intro exI [of _ completed] exI [of _ left]) simp
qed

lemma generation_loop_generations:
  "generation_loop self truthy dl str jd sd pj ns st = Inr st' \<Longrightarrow>
   \<exists>new. generations st' = generations st @ new \<and> length new = length ns"
proof (induction ns arbitrary: st)
  case Nil
  then show ?case by simp
next
  case (Cons n ns)
  from Cons.prems obtain st1 where b: "generation_body self truthy dl str jd sd pj st = Inr st1"
    and l: "generation_loop self truthy dl str jd sd pj ns st1 = Inr st'"
    by (auto split: sum.splits)
  from generation_body_result [OF b] have "generations st1 = generations st @ [previousGeneration st1]"
    by simp
  with Cons.IH [OF l] show ?case by auto
qed

lemma generation_loop_IDs:
  assumes "generation_loop self truthy dl str jd sd pj ns st = Inr st'"
    and "truthy (previousGeneration st)"
    and "\<forall>g\<in>set (generations st'). truthy g"
  shows "map ID (generations st') =
         map ID (generations st) @ map (\<lambda>k. ID (previousGeneration st) + 1 + int k) [0..<length ns]"
  using assms
proof (induction ns arbitrary: st)
  case Nil
  then show ?case by simp
next
  case (Cons n ns)
  from Cons.prems(1) obtain st1 where b: "generation_body self truthy dl str jd sd pj st = Inr st1"
    and l: "generation_loop self truthy dl str jd sd pj ns st1 = Inr st'"
    by (auto split: sum.splits)
  from generation_body_result [OF b] Cons.prems(2)
  have g1: "generations st1 = generations st @ [previousGeneration st1]"
    and id1: "ID (previousGeneration st1) = ID (previousGeneration st) + 1"
    by (simp_all add: getNewGenerationID_def)
  from generation_loop_generations [OF l] g1 have "previousGeneration st1 \<in> set (generations st')"
    by auto
  with Cons.prems(3) have "truthy (previousGeneration st1)" by simp
  from Cons.IH [OF l this Cons.prems(3)] g1 id1 show ?case
    by (simp add: map_upt_Suc add.assoc del: upt_Suc)
qed

lemma generation_loop_first_ID:
  assumes "generation_loop self truthy dl str jd sd pj (n # ns) st = Inr st'"
  shows "ID (generations st' ! length (generations st))
         = getNewGenerationID truthy (Some (previousGeneration st))"
proof -
  from assms obtain st1 where b: "generation_body self truthy dl str jd sd pj st = Inr st1"
    and l: "generation_loop self truthy dl str jd sd pj ns st1 = Inr st'"
    by (auto split: sum.splits)
  from generation_body_result [OF b]
  have g1: "generations st1 = generations st @ [previousGeneration st1]"
    and id1: "ID (previousGeneration st1) = getNewGenerationID truthy (Some (previousGeneration st))"
    by simp_all
  from generation_loop_generations [OF l] g1 obtain new where
    "generations st' = generations st @ previousGeneration st1 # new" by auto
  with id1 show ?thesis by (simp add: nth_append)
qed

lemma importSeed_loop_ID:
  "importSeed_loop fs json_load abspath sd names g = Inr g' \<Longrightarrow> ID g' = ID g"
  by (induction names arbitrary: g)
    (auto simp: Let_def addMember_def split: option.splits fsnode.splits sum.splits)

lemma importSeedGeneration_ID:
  "importSeedGeneration self fs json_load abspath = Inr (seed, out) \<Longrightarrow> ID seed = - 1"
  by (auto simp: importSeedGeneration_def Let_def Generation_def
      split: if_splits sum.splits dest: importSeed_loop_ID)

lemma beginTrialMaster_loop:
  assumes "beginTrialMaster self truthy dl str jd sd pj fs json_load abspath r = Inr (st, out)"
  shows "\<exists>seed. importSeedGeneration self fs json_load abspath = Inr (seed, out) \<and>
     generation_loop self truthy dl str jd sd pj (py_range (generationCount (TrialProperties (config self))))
       \<lparr>run_files = [], run_rng = r, jobList = [], previousGeneration = seed,
        generations = [], submitted = []\<rparr> = Inr st"
  using assms by (auto simp: beginTrialMaster_def Let_def split: sum.splits)

lemma length_generation_jobs:
  "length (generation_jobs self sd n g) = length (members g) * n"
  unfolding generation_jobs_def by (induction "members g" arbitrary: g) (simp_all add: length_concat sum_list_triv comp_def)


lemma generation_body_sizes:
  assumes "generation_body self truthy dl str jd sd pj st = Inr st'"
    and "\<forall>jobs nproc completed left. pj jobs nproc = Inr (completed, left) \<longrightarrow> nths jobs left = jobs"
    and "len_terrains (terrains (TrialProperties (config self))) = Inr n"
  shows "length (jobList st') = length (jobList st)
           + nat (generationSize (TrialProperties (config self))) * n \<and>
         submitted st' = submitted st @ [jobList st']"
proof -
  from generation_body_batch [OF assms(1) assms(3)] obtain completed left where
    s: "submitted st' = submitted st @ [jobList st @ generation_jobs self sd n (previousGeneration st')]"
    and p: "pj (jobList st @ generation_jobs self sd n (previousGeneration st')) (numProcesses self)
       = Inr (completed, left)"
    and j: "jobList st' = nths (jobList st @ generation_jobs self sd n (previousGeneration st')) left"
    by (elim conjE exE)
  from assms(2) p j have j': "jobList st' = jobList st @ generation_jobs self sd n (previousGeneration st')"
    by simp
  from generation_body_result [OF assms(1)]
  have "length (members (previousGeneration st')) = nat (generationSize (TrialProperties (config self)))"
    by simp
  with j' s show ?thesis by (simp add: length_generation_jobs)
qed

lemma submitted_batches_accumulate:
  assumes "generation_loop self truthy dl str jd sd pj ns st = Inr st'"
    and "\<forall>jobs nproc completed left. pj jobs nproc = Inr (completed, left) \<longrightarrow> nths jobs left = jobs"
    and "len_terrains (terrains (TrialProperties (config self))) = Inr n"
  shows "\<exists>bs. submitted st' = submitted st @ bs \<and> length bs = length ns \<and>
     (\<forall>k<length ns. length (bs ! k) = length (jobList st)
         + (k + 1) * (nat (generationSize (TrialProperties (config self))) * n))"
  using assms(1)
proof (induction ns arbitrary: st)
  case Nil
  then show ?case by simp
next
  case (Cons g ns)
  from Cons.prems obtain st1 where b: "generation_body self truthy dl str jd sd pj st = Inr st1"
    and l: "generation_loop self truthy dl str jd sd pj ns st1 = Inr st'"
    by (auto split: sum.splits)
  from generation_body_sizes [OF b assms(2) assms(3)]
  have len1: "length (jobList st1) = length (jobList st)
           + nat (generationSize (TrialProperties (config self))) * n"
    and sub1: "submitted st1 = submitted st @ [jobList st1]" by simp_all
  from Cons.IH [OF l] obtain bs where bs: "submitted st' = submitted st1 @ bs" "length bs = length ns"
    and each: "\<forall>k<length ns. length (bs ! k) = length (jobList st1)
         + (k + 1) * (nat (generationSize (TrialProperties (config self))) * n)" by blast
  have "\<forall>k<length (g # ns). length ((jobList st1 # bs) ! k) = length (jobList st)
         + (k + 1) * (nat (generationSize (TrialProperties (config self))) * n)"
  proof (intro allI impI)
    fix k assume "k < length (g # ns)"
    then show "length ((jobList st1 # bs) ! k) = length (jobList st)
         + (k + 1) * (nat (generationSize (TrialProperties (config self))) * n)"
      using len1 each by (cases k) (simp_all add: algebra_simps)
  qed
  with bs sub1 show ?case
    by (intro exI [of _ "jobList st1 # bs"]) simp
qed

lemma built_job_flat: "job_terrain (args_of (built_job self fn)) = [[0, 0, 0, 0]]"
  by (simp add: built_job_def)

lemma flat_jobs_append: "flat_jobs (xs @ ys) \<longleftrightarrow> flat_jobs xs \<and> flat_jobs ys"
  by (auto simp: flat_jobs_def)

lemma flat_jobs_nths: "flat_jobs js \<Longrightarrow> flat_jobs (nths js A)"
  by (auto simp: flat_jobs_def dest: in_set_nthsD)

lemma flat_generation_jobs: "flat_jobs (generation_jobs self sd n g)"
  by (auto simp: flat_jobs_def generation_jobs_def built_job_flat)

lemma generation_body_flat:
  assumes "generation_body self truthy dl str jd sd pj st = Inr st'" and "flat_jobs (jobList st)"
  shows "flat_jobs (jobList st') \<and> (\<exists>batch. submitted st' = submitted st @ [batch] \<and> flat_jobs batch)"
proof -
  from generation_body_result [OF assms(1)] obtain n left where
    s: "submitted st' = submitted st @ [jobList st @ generation_jobs self sd n (previousGeneration st')]"
    and j: "jobList st' = nths (jobList st @ generation_jobs self sd n (previousGeneration st')) left"
    by (elim conjE exE)
  from assms(2) have f: "flat_jobs (jobList st @ generation_jobs self sd n (previousGeneration st'))"
    by (simp add: flat_jobs_append flat_generation_jobs)
  from flat_jobs_nths [OF f] j have "flat_jobs (jobList st')" by simp
  with s f show ?thesis by blast
qed

lemma generation_loop_flat:
  assumes "generation_loop self truthy dl str jd sd pj ns st = Inr st'"
    and "flat_jobs (jobList st)" and "\<forall>b\<in>set (submitted st). flat_jobs b"
  shows "flat_jobs (jobList st') \<and> (\<forall>b\<in>set (submitted st'). flat_jobs b)"
  using assms
proof (induction ns arbitrary: st)
  case Nil
  then show ?case by simp
next
  case (Cons g ns)
  from Cons.prems(1) obtain st1 where b: "generation_body self truthy dl str jd sd pj st = Inr st1"
    and l: "generation_loop self truthy dl str jd sd pj ns st1 = Inr st'"
    by (auto split: sum.splits)
  from generation_body_flat [OF b Cons.prems(2)] obtain batch where f1: "flat_jobs (jobList st1)"
    and s1: "submitted st1 = submitted st @ [batch]" and fb: "flat_jobs batch"
    by (elim conjE exE)
  from s1 fb Cons.prems(3) have "\<forall>b\<in>set (submitted st1). flat_jobs b" by simp
  from Cons.IH [OF l f1 this] show ?case .
qed

text \<open>
  C3. \<open>getNewGenerationID\<close> returns the previous ID plus one when the previous
  generation is true in Python's sense, and \<open>-1\<close> when it is false or \<open>None\<close>.
  The imported seed always has ID \<open>-1\<close>. Hence in a run whose seed and produced
  generations are all true the produced generations have the IDs \<open>0, 1, 2, \<dots>\<close>
  in order, and in a run whose seed is false the first produced generation has
  ID \<open>-1\<close>.
\<close>

theorem generation_ID_sequence:
  "(truthy prev \<longrightarrow> getNewGenerationID truthy (Some prev) = ID prev + 1) \<and>
   (\<not> truthy prev \<longrightarrow> getNewGenerationID truthy (Some prev) = - 1) \<and>
   getNewGenerationID truthy None = - 1 \<and>
   (importSeedGeneration self fs json_load abspath = Inr (seed, out) \<longrightarrow> ID seed = - 1) \<and>
   (beginTrialMaster self truthy dl str jd sd pj fs json_load abspath r = Inr (st, out) \<and>
    importSeedGeneration self fs json_load abspath = Inr (seed, out) \<and>
    truthy seed \<and> (\<forall>g\<in>set (generations st). truthy g) \<longrightarrow>
      map ID (generations st) = map int [0..<nat (generationCount (TrialProperties (config self)))]) \<and>
   (beginTrialMaster self truthy dl str jd sd pj fs json_load abspath r = Inr (st, out) \<and>
    importSeedGeneration self fs json_load abspath = Inr (seed, out) \<and>
    \<not> truthy seed \<and> 0 < generationCount (TrialProperties (config self)) \<longrightarrow>
      ID (generations st ! 0) = - 1)"
proof (intro conjI impI)
  show "getNewGenerationID truthy None = - 1" by (simp add: getNewGenerationID_def)
next
  assume "truthy prev"
  then show "getNewGenerationID truthy (Some prev) = ID prev + 1"
    by (simp add: getNewGenerationID_def)
next
  assume "\<not> truthy prev"
  then show "getNewGenerationID truthy (Some prev) = - 1"
    by (simp add: getNewGenerationID_def)
next
  assume "importSeedGeneration self fs json_load abspath = Inr (seed, out)"
  then show "ID seed = - 1" by (rule importSeedGeneration_ID)
next
  assume a: "beginTrialMaster self truthy dl str jd sd pj fs json_load abspath r = Inr (st, out) \<and>
    importSeedGeneration self fs json_load abspath = Inr (seed, out) \<and>
    truthy seed \<and> (\<forall>g\<in>set (generations st). truthy g)"
  with beginTrialMaster_loop [of self truthy dl str jd sd pj fs json_load abspath r st out]
  have l: "generation_loop self truthy dl str jd sd pj (py_range (generationCount (TrialProperties (config self))))
       \<lparr>run_files = [], run_rng = r, jobList = [], previousGeneration = seed,
        generations = [], submitted = []\<rparr> = Inr st" by auto
  from a have "ID seed = - 1" by (auto dest: importSeedGeneration_ID)
  with generation_loop_IDs [OF l] a
  show "map ID (generations st) = map int [0..<nat (generationCount (TrialProperties (config self)))]"
    by (simp add: py_range_def)
next
  assume a: "beginTrialMaster self truthy dl str jd sd pj fs json_load abspath r = Inr (st, out) \<and>
    importSeedGeneration self fs json_load abspath = Inr (seed, out) \<and>
    \<not> truthy seed \<and> 0 < generationCount (TrialProperties (config self))"
  with beginTrialMaster_loop [of self truthy dl str jd sd pj fs json_load abspath r st out]
  have l: "generation_loop self truthy dl str jd sd pj (py_range (generationCount (TrialProperties (config self))))
       \<lparr>run_files = [], run_rng = r, jobList = [], previousGeneration = seed,
        generations = [], submitted = []\<rparr> = Inr st" by auto
  from a obtain n ns where pr: "py_range (generationCount (TrialProperties (config self))) = n # ns"
    by (cases "py_range (generationCount (TrialProperties (config self)))")
       (auto simp: py_range_def upto.simps split: if_splits)
  from generation_loop_first_ID [OF l [unfolded pr]] a
  show "ID (generations st ! 0) = - 1"
    by (simp add: getNewGenerationID_def)
qed



text \<open>
  C5. Each iteration of the terrain loop appends exactly one job, and that job's
  terrain is \<open>[[0, 0, 0, 0]]\<close> whatever the item iterated; so every job of every
  batch a run hands to the scheduler carries that terrain.
\<close>

theorem jobs_carry_flat_terrain:
  "length (terrain_loop self fileName' items jobList') = length jobList' + length items \<and>
   take (length jobList') (terrain_loop self fileName' items jobList') = jobList' \<and>
   (\<forall>k<length items.
      job_terrain (args_of (terrain_loop self fileName' items jobList' ! (length jobList' + k)))
        = [[0, 0, 0, 0]]) \<and>
   (beginTrialMaster self truthy dl str jd sd pj fs json_load abspath r = Inr (st, out) \<longrightarrow>
      (\<forall>batch\<in>set (submitted st). \<forall>j\<in>set batch. job_terrain (args_of j) = [[0, 0, 0, 0]]))"
proof (intro conjI impI)
  show "length (terrain_loop self fileName' items jobList') = length jobList' + length items"
    by (simp add: terrain_loop_jobs)
  show "take (length jobList') (terrain_loop self fileName' items jobList') = jobList'"
    by (simp add: terrain_loop_jobs)
  show "\<forall>k<length items.
      job_terrain (args_of (terrain_loop self fileName' items jobList' ! (length jobList' + k)))
        = [[0, 0, 0, 0]]"
    by (simp add: terrain_loop_jobs built_job_flat)
next
  assume "beginTrialMaster self truthy dl str jd sd pj fs json_load abspath r = Inr (st, out)"
  from beginTrialMaster_loop [OF this] obtain seed where
    l: "generation_loop self truthy dl str jd sd pj (py_range (generationCount (TrialProperties (config self))))
       \<lparr>run_files = [], run_rng = r, jobList = [], previousGeneration = seed,
        generations = [], submitted = []\<rparr> = Inr st" by blast
  from generation_loop_flat [OF l]
  show "\<forall>batch\<in>set (submitted st). \<forall>j\<in>set batch. job_terrain (args_of j) = [[0, 0, 0, 0]]"
    by (simp add: flat_jobs_def)
qed



subsection \<open>The example run, evaluated\<close>

lemmas run_unfold =
  example_run_def beginTrialMaster_def importSeedGeneration_def isdir_def example_fs_def
  generation_body_def generationGenerator_def getNewGenerationID_def
  generateComponentPopulations_def generateComponentPopulation_def postProcessComponent_def
  createNewGeneration_def random_choice_def new_Member_def set_component_def addMember_def
  Generation_def getMembers_def member_body_def writeMemberToFile_def iter_terrains_def
  example_json_dump_def example_self_one_terrain_def built_job_def member_file_def
  example_str_dict_def example_scheduler_def str_entry_def

lemma example_run_true:
  "\<exists>st. example_run (\<lambda>g. True) = Inr (st, [seed_warning]) \<and>
     map ID (generations st) = [0, 1] \<and>
     map (map (member_file example_self_one_terrain example_str_dict) \<circ> members) (generations st)
       = [[''run_0_0.json''], [''run_1_0.json'']] \<and>
     submitted st = [[built_job example_self_one_terrain ''run_0_0.json''],
                     [built_job example_self_one_terrain ''run_1_0.json'']]"
  by (simp add: run_unfold example_unfold)

lemma example_run_empty_false:
  "\<exists>st. example_run (\<lambda>g. members g \<noteq> []) = Inr (st, [seed_warning]) \<and>
     map ID (generations st) = [- 1, 0]"
  by (simp add: run_unfold example_unfold)

lemma example_import:
  "importSeedGeneration example_self_one_terrain example_fs example_json_load (\<lambda>p. p)
     = Inr (Generation (- 1), [seed_warning])"
  by (simp add: importSeedGeneration_def isdir_def example_fs_def)

theorem generation_ID_sequence_witness:
  "(\<exists>st. example_run (\<lambda>g. True) = Inr (st, [seed_warning]) \<and> map ID (generations st) = [0, 1]) \<and>
   (\<exists>st. example_run (\<lambda>g. members g \<noteq> []) = Inr (st, [seed_warning]) \<and>
         ID (generations st ! 0) = - 1)"
proof -
  have count: "generationCount (TrialProperties (config example_self_one_terrain)) = 2"
    by (simp add: example_self_one_terrain_def example_config_def LearningJobMaster_setup_def)
  from example_run_true obtain st where
    run: "example_run (\<lambda>g. True) = Inr (st, [seed_warning])"
    by (elim exE conjE)
  from generation_ID_sequence [where truthy = "\<lambda>g. True" and self = example_self_one_terrain
      and dl = example_learner and str = str_int and jd = example_json_dump and sd = example_str_dict
      and pj = example_scheduler and fs = example_fs
      and json_load = example_json_load and abspath = "\<lambda>p. p" and r = "\<lambda>k. k" and st = st
      and out = "[seed_warning]" and seed = "Generation (- 1)"]
    run [unfolded example_run_def] example_import count
  have "map ID (generations st) = map int [0..<2]" by simp
  then have first: "map ID (generations st) = [0, 1]" by (simp add: upt_rec)
  from example_run_empty_false obtain st' where
    run': "example_run (\<lambda>g. members g \<noteq> []) = Inr (st', [seed_warning])"
    by (elim exE conjE)
  from generation_ID_sequence [where truthy = "\<lambda>g. members g \<noteq> []" and self = example_self_one_terrain
      and dl = example_learner and str = str_int and jd = example_json_dump and sd = example_str_dict
      and pj = example_scheduler and fs = example_fs
      and json_load = example_json_load and abspath = "\<lambda>p. p" and r = "\<lambda>k. k" and st = st'
      and out = "[seed_warning]" and seed = "Generation (- 1)"]
    run' [unfolded example_run_def] example_import count
  have "ID (generations st' ! 0) = - 1" by (simp add: Generation_def)
  with first run run' show ?thesis by (intro conjI exI [of _ st] exI [of _ st']) simp_all
qed


theorem jobs_carry_flat_terrain_witness:
  "(\<exists>st. example_run (\<lambda>g. True) = Inr (st, [seed_warning]) \<and>
       map (map (job_terrain \<circ> args_of)) (submitted st)
         = [[[[0, 0, 0, 0]]], [[[0, 0, 0, 0]]]]) \<and>
   job_terrain (args_of (terrain_loop example_self_one_terrain ''run_0_0.json''
       [ListItem 5, ListItem 9] [] ! 1)) = [[0, 0, 0, 0]]"
proof -
  from example_run_true obtain st where
    run: "example_run (\<lambda>g. True) = Inr (st, [seed_warning])"
    and sub: "submitted st = [[built_job example_self_one_terrain ''run_0_0.json''],
                     [built_job example_self_one_terrain ''run_1_0.json'']]"
    by (elim exE conjE)
  note flat = jobs_carry_flat_terrain [where self = example_self_one_terrain
      and fileName' = "''run_0_0.json''" and items = "[ListItem 5, ListItem 9]" and jobList' = "[]"
      and truthy = "\<lambda>g. True" and dl = example_learner and str = str_int
      and jd = example_json_dump and sd = example_str_dict
      and pj = example_scheduler and fs = example_fs and json_load = example_json_load
      and abspath = "\<lambda>p. p" and r = "\<lambda>k. k" and st = st and out = "[seed_warning]"]
  from flat run [unfolded example_run_def] sub
  have a: "map (map (job_terrain \<circ> args_of)) (submitted st)
         = [[[[0, 0, 0, 0]]], [[[0, 0, 0, 0]]]]"
    by simp
  from flat have b: "job_terrain (args_of (terrain_loop example_self_one_terrain ''run_0_0.json''
       [ListItem 5, ListItem 9] [] ! 1)) = [[0, 0, 0, 0]]"
    by simp
  from a b run show ?thesis by (intro conjI exI [of _ st]) simp_all
qed




subsection \<open>The attribute \<open>self.terrains\<close> is never read\<close>

















end
